theory Spec2Isabelle
  imports Complex_Main
begin

section \<open>Numbers\<close>

text \<open>
  The engine computes with JavaScript numbers. The embedding takes them to be real
  numbers: \<open>Math.exp\<close>, \<open>Math.log\<close>, \<open>Math.min\<close> and \<open>Math.max\<close> are \<open>exp\<close>,
  \<open>ln\<close>, \<open>min\<close> and \<open>max\<close>, and the only rounding is the explicit \<open>toFixed(8)\<close> of
  the sources. Where JavaScript leaves the finite numbers (a division by zero, a
  negative base under a fractional exponent) the value of the embedding is not that of
  the program, except in \<open>computeDecayFactor\<close>, whose infinite factor is written out.
  The theorems below are either equations between two runs of the same code, which do
  not depend on the arithmetic, or they carry the hypotheses (a positive stability, a
  non-negative elapsed time, a positive difficulty) under which every intermediate
  value is a finite number.
\<close>

text \<open>
  \<open>+x.toFixed(8)\<close>: the sign is split off, a magnitude of at least \<open>10^21\<close> is
  printed in full (and read back unchanged), any other magnitude is replaced by the
  nearest multiple of \<open>10^-8\<close>, the larger one on a tie.
\<close>

definition toFixed8 :: "real \<Rightarrow> real" where
  "toFixed8 x =
     (if 10 ^ 21 \<le> \<bar>x\<bar> then x
      else if x < 0 then - (of_int (round (- x * 10 ^ 8)) / 10 ^ 8)
      else of_int (round (x * 10 ^ 8)) / 10 ^ 8)"

text \<open>
  \<open>Math.pow\<close>: exponent zero gives 1 for every base; a positive base is the real power;
  a base that is not positive has a real power for an integer exponent, and zero has
  none for a negative one. The last branch stands for the results that are not real
  numbers (\<open>NaN\<close> for a negative base under a fractional exponent); together with a
  zero base under a negative exponent (\<open>Infinity\<close> in JavaScript) it is outside the
  arguments of the theorems below, and \<open>computeDecayFactor\<close> writes the zero base out.
\<close>

definition Math_pow :: "real \<Rightarrow> real \<Rightarrow> real" where
  "Math_pow b e =
     (if e = 0 then 1
      else if 0 < b then b powr e
      else if e = of_int \<lfloor>e\<rfloor> then b powi \<lfloor>e\<rfloor>
      else 0)"

text \<open>
  Modelled from the spec: the helper \<open>clamp\<close> of \<open>fsrs/help\<close> is imported by
  \<open>stability.ts\<close> but is not among the sources; the spec's "clamp to [lo, hi]" is taken
  as the usual \<open>Math.min(Math.max(value, lo), hi)\<close>.
\<close>

definition clamp :: "real \<Rightarrow> real \<Rightarrow> real \<Rightarrow> real" where
  "clamp v lo hi = min (max v lo) hi"

section \<open>FSRS parameters and grades\<close>

definition S_MIN :: real where
  "S_MIN = 0.001"

definition FSRS6_DEFAULT_DECAY :: real where
  "FSRS6_DEFAULT_DECAY = 0.1542"

definition default_w :: "real list" where
  "default_w =
     [0.212, 1.2931, 2.3065, 8.2956, 6.4133, 0.8334, 3.0194, 0.001, 1.8722, 0.1666,
      0.796, 1.4835, 0.0614, 0.2629, 1.6483, 0.6014, 1.8729, 0.5425, 0.0912, 0.0658,
      FSRS6_DEFAULT_DECAY]"

text \<open>
  Modelled from the spec: the enumeration \<open>Rating\<close> of \<open>fsrs/models\<close> is not among the
  sources; the spec gives the grades as the ordinals Again = 1, Hard = 2, Good = 3,
  Easy = 4, which is also what \<open>gradeMap\<close> in \<open>reviewStep\<close> assigns.
\<close>

type_synonym Grade = nat

definition Rating_Again :: Grade where "Rating_Again = 1"
definition Rating_Hard :: Grade where "Rating_Hard = 2"
definition Rating_Good :: Grade where "Rating_Good = 3"
definition Rating_Easy :: Grade where "Rating_Easy = 4"

section \<open>Stability formulas (fsrs/core/stability.ts)\<close>

definition next_recall_stability :: "real list \<Rightarrow> real \<Rightarrow> real \<Rightarrow> real \<Rightarrow> Grade \<Rightarrow> real" where
  "next_recall_stability params d s r g =
     (let hard_penalty = (if Rating_Hard = g then params ! 15 else 1);
          easy_bound = (if Rating_Easy = g then params ! 16 else 1)
      in toFixed8
           (clamp
              (s *
                (1 +
                  exp (params ! 8) *
                    (11 - d) *
                    Math_pow s (- (params ! 9)) *
                    (exp ((1 - r) * params ! 10) - 1) *
                    hard_penalty *
                    easy_bound))
              S_MIN
              36500))"

definition next_forget_stability :: "real list \<Rightarrow> real \<Rightarrow> real \<Rightarrow> real \<Rightarrow> bool \<Rightarrow> real" where
  "next_forget_stability params d s r enable_short_term =
     (let s_new =
            params ! 11 *
              Math_pow d (- (params ! 12)) *
              (Math_pow (s + 1) (params ! 13) - 1) *
              exp ((1 - r) * params ! 14)
      in if \<not> enable_short_term then toFixed8 (clamp s_new S_MIN s)
         else (let s_min = s / exp (params ! 17 * params ! 18)
               in toFixed8 (clamp s_new S_MIN s_min)))"

section \<open>Forgetting curve (fsrs/core/recall.ts)\<close>

text \<open>
  \<open>computeDecayFactor\<close> takes either a decay number or a parameter array and has no
  guard. Its factor leaves the finite numbers in two ways, both written out below as
  the constructor \<open>Infinity\<close>:

  \<^item> for a zero weight (the literal \<open>0\<close>, that is \<open>+0\<close>) the sources compute
    \<open>Math.pow(-0, -1) = -Infinity\<close>, times the negative \<open>Math.log(0.9)\<close> is \<open>+Infinity\<close>,
    whose exponential less one is \<open>Infinity\<close>, which \<open>toFixed\<close> prints and \<open>+\<close> reads
    back as \<open>Infinity\<close>;

  \<^item> \<open>Math.exp\<close> returns \<open>Infinity\<close> for every argument above \<open>EXP_OVERFLOW\<close>, the
    largest double whose exponential is a finite double (about 709.78); a small
    positive weight (below about 0.000148) gives such an argument.

  A very negative argument makes \<open>Math.exp\<close> return a value next to 0, as \<open>exp\<close>
  does, and the rounding to eight digits then gives the same factor -1.
\<close>

datatype DecayOrParams = Decay real | Params "real list"

datatype Factor = Finite real | Infinity

record DecayFactor =
  decay :: real
  factor :: Factor

definition EXP_OVERFLOW :: real where
  "EXP_OVERFLOW = 709.782712893383973096"

definition computeDecayFactor :: "DecayOrParams \<Rightarrow> DecayFactor" where
  "computeDecayFactor decayOrParams =
     (let decay = (case decayOrParams of Decay x \<Rightarrow> - x | Params ps \<Rightarrow> - (ps ! 20))
      in if decay = 0 \<or> EXP_OVERFLOW < Math_pow decay (- 1) * ln 0.9
         then \<lparr>decay = decay, factor = Infinity\<rparr>
         else \<lparr>decay = decay,
               factor = Finite (toFixed8 (exp (Math_pow decay (- 1) * ln 0.9) - 1.0))\<rparr>)"

text \<open>
  \<open>forgetting_curve\<close> with an infinite factor: with a zero decay the exponent of
  \<open>Math.pow\<close> is zero and the power is 1 whatever the base is; with a decay that is
  not zero (it is negative then) the base is infinite and the power is 0. For an
  elapsed time of zero the base is \<open>Infinity * 0\<close>, which is \<open>NaN\<close> and has no
  counterpart here; the theorems below call \<open>forgetting_curve\<close> with the default
  parameters, whose factor is finite.
\<close>

definition forgetting_curve :: "DecayOrParams \<Rightarrow> real \<Rightarrow> real \<Rightarrow> real" where
  "forgetting_curve decayOrParams elapsed_days stability =
     (let df = computeDecayFactor decayOrParams
      in case factor df of
           Infinity \<Rightarrow> (if decay df = 0 then toFixed8 1 else toFixed8 0)
         | Finite f \<Rightarrow> toFixed8 (Math_pow (1 + (f * elapsed_days) / stability) (decay df)))"

section \<open>Scalar policy modules (tensor/policy)\<close>

definition computeLoadPressure :: "real \<Rightarrow> real \<Rightarrow> real" where
  "computeLoadPressure dueToday dailyCapacity =
     (if dueToday \<le> 0 then 1.0
      else if dailyCapacity \<le> 0 then 0.85
      else min 1.0 (max 0.85 (dailyCapacity / dueToday)))"

definition applyAdaptiveRetention :: "real \<Rightarrow> real \<Rightarrow> real \<Rightarrow> real" where
  "applyAdaptiveRetention R_eff R_target strength =
     (let R_eff_new = R_eff + strength * (R_target - R_eff)
      in min 0.99 (max 0.01 R_eff_new))"

text \<open>\<open>computeSessionMomentum\<close> has the default argument \<open>k = 0.02\<close>.\<close>

definition computeSessionMomentum :: "real \<Rightarrow> real \<Rightarrow> real" where
  "computeSessionMomentum reviewsSoFar k =
     (let momentum = exp (- k * reviewsSoFar)
      in min 1.0 (max 0.9 momentum))"

section \<open>Effective state (tensor/computeEffectiveState.ts)\<close>

record EffectiveStateInput =
  S :: real
  t :: real
  scheduled_t :: "real option"
  early :: "bool option"
  postponed :: "bool option"
  contextMultiplier :: "real option"

record EffectiveState =
  R_eff :: real
  t_eff :: real

definition computeEffectiveState :: "EffectiveStateInput \<Rightarrow> EffectiveState" where
  "computeEffectiveState input =
     (let S = EffectiveStateInput.S input;
          t = EffectiveStateInput.t input;
          scheduled_t = EffectiveStateInput.scheduled_t input;
          early = (case EffectiveStateInput.early input of None \<Rightarrow> False | Some b \<Rightarrow> b);
          postponed = (case EffectiveStateInput.postponed input of None \<Rightarrow> False | Some b \<Rightarrow> b);
          contextMultiplier =
            (case EffectiveStateInput.contextMultiplier input of None \<Rightarrow> 1 | Some m \<Rightarrow> m);
          t_eff0 =
            (case scheduled_t of
               Some st \<Rightarrow> (if t > st then (t - st) + 1.5 * st else t)
             | None \<Rightarrow> t);
          t_eff1 = (if early then max 0 (t_eff0 * 0.85) else t_eff0);
          t_eff2 = (if postponed \<and> scheduled_t = None then t_eff1 * 1.15 else t_eff1);
          R_eff0 = forgetting_curve (Params default_w) t_eff2 S;
          R_eff1 = R_eff0 * contextMultiplier;
          R_eff2 = min 0.99 (max 0.01 R_eff1)
      in \<lparr>R_eff = R_eff2, t_eff = t_eff2\<rparr>)"

section \<open>Policy modules with records (tensor/policy)\<close>

record RetentionSignals =
  backlogSize :: real
  recentFailureRate :: real
  sessionLength :: real
  dailyCapacity :: real
  dueToday :: real
  recentSuccessRate :: "real option"
  userIntent :: "real option"

text \<open>
  \<open>computeRTarget\<close> has the default arguments \<open>R_base = 0.85\<close>, \<open>gamma = 0.1\<close> and
  \<open>delta = 0.02\<close>; \<open>reviewStep\<close> calls it with the signals only, so the call site below
  passes the defaults.
\<close>

definition computeRTarget :: "RetentionSignals \<Rightarrow> real \<Rightarrow> real \<Rightarrow> real \<Rightarrow> real" where
  "computeRTarget signals R_base gamma delta =
     (let recentSuccessRate =
            (case RetentionSignals.recentSuccessRate signals of
               Some x \<Rightarrow> x
             | None \<Rightarrow> 1.0 - recentFailureRate signals);
          userIntent =
            (case RetentionSignals.userIntent signals of
               Some x \<Rightarrow> x
             | None \<Rightarrow>
                 max 0 (min 1 (1.0 - (backlogSize signals / 100.0) - (sessionLength signals / 120.0))));
          R_target0 = R_base + gamma * recentSuccessRate + delta * userIntent;
          loadRatio =
            (if dailyCapacity signals > 0 then dueToday signals / dailyCapacity signals else 1.0);
          R_target1 =
            (if loadRatio > 1.0 then R_target0 - 0.05 * min 1.0 (loadRatio - 1.0) else R_target0)
      in min 0.97 (max 0.75 R_target1))"

record ContextSignals =
  environmentQuality :: "real option"
  difficulty :: "real option"
  timeOfDay :: "real option"

definition computeContextMultiplier :: "ContextSignals option \<Rightarrow> real" where
  "computeContextMultiplier signals =
     (case signals of
        None \<Rightarrow> 1.0
      | Some sg \<Rightarrow>
          (let multiplier0 = 1.0;
               multiplier1 =
                 (case environmentQuality sg of
                    Some q \<Rightarrow> multiplier0 + (q - 0.5) * 0.1
                  | None \<Rightarrow> multiplier0);
               multiplier2 =
                 (case ContextSignals.difficulty sg of
                    Some d \<Rightarrow> multiplier1 + (1.0 - d) * 0.05
                  | None \<Rightarrow> multiplier1);
               multiplier3 =
                 (case timeOfDay sg of
                    Some tod \<Rightarrow> multiplier2 + (tod - 0.5) * 0.05
                  | None \<Rightarrow> multiplier2)
           in min 1.05 (max 0.85 multiplier3)))"

section \<open>Stability tensor update (tensor/updateTensorStability.ts)\<close>

record StabilityUpdateInput =
  S :: real
  R_eff :: real
  grade :: Grade
  difficulty :: real
  scheduled_t :: "real option"
  actual_t :: "real option"
  contextMultiplier :: "real option"
  sessionMomentum :: "real option"

definition updateStabilityTensor :: "StabilityUpdateInput \<Rightarrow> real" where
  "updateStabilityTensor input =
     (let S = StabilityUpdateInput.S input;
          R_eff = StabilityUpdateInput.R_eff input;
          grade = StabilityUpdateInput.grade input;
          difficulty = StabilityUpdateInput.difficulty input;
          contextMultiplier =
            (case StabilityUpdateInput.contextMultiplier input of None \<Rightarrow> 1 | Some m \<Rightarrow> m);
          sessionMomentum =
            (case StabilityUpdateInput.sessionMomentum input of None \<Rightarrow> 1 | Some m \<Rightarrow> m);
          S_base = next_recall_stability default_w difficulty S R_eff grade;
          S_new0 = S_base * contextMultiplier * sessionMomentum;
          S_new1 =
            (case (StabilityUpdateInput.scheduled_t input, StabilityUpdateInput.actual_t input) of
               (Some st, Some a_t) \<Rightarrow>
                 (if a_t > st
                  then (let delay_ratio = a_t / st;
                            penalty = Math_pow delay_ratio 0.8
                        in S_new0 / penalty)
                  else S_new0)
             | _ \<Rightarrow> S_new0);
          MIN_STABILITY = 0.1;
          MAX_STABILITY = 36500
      in min MAX_STABILITY (max MIN_STABILITY S_new1))"

section \<open>The review step (tensor/reviewStep.ts)\<close>

datatype GradeName = Again | Hard | Good | Easy

fun gradeMap :: "GradeName \<Rightarrow> Grade" where
  "gradeMap Again = 1"
| "gradeMap Hard = 2"
| "gradeMap Good = 3"
| "gradeMap Easy = 4"

text \<open>A \<open>Date\<close> is its time value, the milliseconds since the epoch.\<close>

type_synonym Date = int

record SchedulerInput =
  now :: Date
  S_eff :: real
  R_eff :: real
  t_eff :: real
  grade :: GradeName
  difficulty :: real

record SchedulerOutput =
  nextInterval :: real
  due :: Date

type_synonym Scheduler = "SchedulerInput \<Rightarrow> SchedulerOutput"

record ReviewStepInput =
  S :: real
  difficulty :: real
  t :: real
  scheduled_t :: "real option"
  grade :: GradeName
  early :: "bool option"
  postponed :: "bool option"
  R_target :: "real option"
  retentionSignals :: "RetentionSignals option"
  reviewsSoFarInSession :: "real option"
  contextSignals :: "ContextSignals option"
  now :: Date
  scheduler :: Scheduler

record ReviewStepOutput =
  S_new :: real
  nextInterval :: real
  due :: Date
  R_eff :: real
  t_eff :: real

definition reviewStep :: "ReviewStepInput \<Rightarrow> ReviewStepOutput" where
  "reviewStep input =
     (let S = ReviewStepInput.S input;
          difficulty = ReviewStepInput.difficulty input;
          t = ReviewStepInput.t input;
          scheduled_t = ReviewStepInput.scheduled_t input;
          grade = ReviewStepInput.grade input;
          early = (case ReviewStepInput.early input of None \<Rightarrow> False | Some b \<Rightarrow> b);
          postponed = (case ReviewStepInput.postponed input of None \<Rightarrow> False | Some b \<Rightarrow> b);
          R_target = ReviewStepInput.R_target input;
          retentionSignals = ReviewStepInput.retentionSignals input;
          reviewsSoFarInSession =
            (case ReviewStepInput.reviewsSoFarInSession input of None \<Rightarrow> 0 | Some n \<Rightarrow> n);
          contextSignals = ReviewStepInput.contextSignals input;
          now = ReviewStepInput.now input;
          scheduler = ReviewStepInput.scheduler input;
          es = computeEffectiveState
                 \<lparr>EffectiveStateInput.S = S, t = t, scheduled_t = scheduled_t,
                  early = Some early, postponed = Some postponed, contextMultiplier = Some 1\<rparr>;
          R_eff = EffectiveState.R_eff es;
          t_eff = EffectiveState.t_eff es;
          pressure =
            (case retentionSignals of
               Some rs \<Rightarrow> computeLoadPressure (dueToday rs) (dailyCapacity rs)
             | None \<Rightarrow> 1.0);
          R_target_computed =
            (case R_target of
               Some x \<Rightarrow> x
             | None \<Rightarrow>
                 (case retentionSignals of
                    Some rs \<Rightarrow> computeRTarget rs 0.85 0.1 0.02
                  | None \<Rightarrow> 0.9));
          baseStrength = 0.5;
          adaptiveStrength = baseStrength * pressure;
          adjustedR_eff = applyAdaptiveRetention R_eff R_target_computed adaptiveStrength;
          S_new0 = updateStabilityTensor
                     \<lparr>StabilityUpdateInput.S = S, R_eff = adjustedR_eff, grade = gradeMap grade,
                      difficulty = difficulty, scheduled_t = scheduled_t, actual_t = Some t,
                      contextMultiplier = None, sessionMomentum = None\<rparr>;
          sessionMomentum = computeSessionMomentum reviewsSoFarInSession 0.02;
          contextMultiplier = computeContextMultiplier contextSignals;
          S_new1 = S_new0 * sessionMomentum * pressure * contextMultiplier;
          S_new2 =
            (if retentionSignals \<noteq> None \<and> pressure < 1.0
             then (let baselineR_eff =
                         EffectiveState.R_eff
                           (computeEffectiveState
                              \<lparr>EffectiveStateInput.S = S, t = t, scheduled_t = scheduled_t,
                               early = Some early, postponed = Some postponed,
                               contextMultiplier = Some 1\<rparr>);
                       baselineS_new = updateStabilityTensor
                                         \<lparr>StabilityUpdateInput.S = S, R_eff = baselineR_eff,
                                          grade = gradeMap grade, difficulty = difficulty,
                                          scheduled_t = scheduled_t, actual_t = Some t,
                                          contextMultiplier = None, sessionMomentum = None\<rparr>;
                       maxAllowedS_new =
                         baselineS_new * sessionMomentum * pressure * contextMultiplier
                   in min S_new1 maxAllowedS_new)
             else S_new1);
          schedulerResult =
            scheduler
              \<lparr>SchedulerInput.now = now, S_eff = S_new2, R_eff = adjustedR_eff, t_eff = t_eff,
               grade = grade, difficulty = difficulty\<rparr>
      in \<lparr>S_new = S_new2,
          nextInterval = SchedulerOutput.nextInterval schedulerResult,
          due = SchedulerOutput.due schedulerResult,
          R_eff = adjustedR_eff,
          t_eff = t_eff\<rparr>)"

section \<open>Memory state validation (tensor/integration.ts)\<close>

record MemoryState =
  S :: real
  difficulty :: real
  t :: real
  scheduled_t :: "real option"

record ValidationResult =
  valid :: bool
  errors :: "string list"

text \<open>
  The fields are numbers by their type, so the \<open>typeof\<close> tests of the sources are
  true and only the comparisons remain. The errors are pushed in the order of the
  sources.
\<close>

definition validateMemoryState :: "MemoryState \<Rightarrow> ValidationResult" where
  "validateMemoryState state =
     (let errors0 = [];
          errors1 =
            (if MemoryState.S state < 0
             then errors0 @ [''Stability (S) must be a non-negative number'']
             else errors0);
          errors2 =
            (if MemoryState.S state > 36500
             then errors1 @ [''Stability (S) exceeds maximum allowed value (36500)'']
             else errors1);
          errors3 =
            (if MemoryState.difficulty state < 0 \<or> MemoryState.difficulty state > 10
             then errors2 @ [''Difficulty must be between 0 and 10'']
             else errors2);
          errors4 =
            (if MemoryState.t state < 0
             then errors3 @ [''Elapsed time (t) must be a non-negative number'']
             else errors3);
          errors5 =
            (case MemoryState.scheduled_t state of
               None \<Rightarrow> errors4
             | Some st \<Rightarrow>
                 (let e1 =
                        (if st < 0
                         then errors4 @ [''Scheduled time (scheduled_t) must be a non-negative number'']
                         else errors4)
                  in if st > MemoryState.t state
                     then e1 @ [''Scheduled time cannot be greater than elapsed time'']
                     else e1))
      in \<lparr>valid = (length errors5 = 0), errors = errors5\<rparr>)"

text \<open>
  \<open>createMockScheduler\<close> of the same file: the interval is the stability times a
  multiplier (default 1.0) and the due date is \<open>now\<close> plus the interval in
  milliseconds, cut to a whole time value by the \<open>Date\<close> constructor.
\<close>

definition createMockScheduler :: "real \<Rightarrow> Scheduler" where
  "createMockScheduler intervalMultiplier input =
     (let nextInterval = S_eff input * intervalMultiplier;
          ms = real_of_int (SchedulerInput.now input) + nextInterval * 24 * 60 * 60 * 1000;
          due = (if 0 \<le> ms then \<lfloor>ms\<rfloor> else \<lceil>ms\<rceil>)
      in \<lparr>SchedulerOutput.nextInterval = nextInterval, due = due\<rparr>)"

text \<open>
  \<open>Tensor.review\<close> (tensor/api.ts) and \<open>Deck.processReview\<close> (tensor/deck.ts) build
  the memory state that the card keeps after a review from the state before it and the
  result of \<open>reviewStep\<close>: the stability is \<open>S_new\<close>, the difficulty is kept, the
  elapsed time is reset and the scheduled time is cleared.
\<close>

definition newMemoryState :: "MemoryState \<Rightarrow> ReviewStepOutput \<Rightarrow> MemoryState" where
  "newMemoryState memoryState result =
     \<lparr>MemoryState.S = S_new result,
      difficulty = MemoryState.difficulty memoryState,
      t = 0,
      scheduled_t = None\<rparr>"

section \<open>The review step with a scheduler that may throw\<close>

text \<open>
  \<open>reviewStep\<close> and the functions it calls contain no \<open>throw\<close> and no \<open>try\<close>, and
  their arithmetic never raises in JavaScript. The scheduler is code of the caller:
  what it throws leaves \<open>reviewStep\<close> unhandled. \<open>reviewStep_call\<close> is the body of
  \<open>reviewStep\<close> once more, with the scheduler as a function into a sum so that a
  throw is a value; the scheduler is given as an argument, in place of the field of
  the input, whose type has no room for a throw. The spec names three errors.
\<close>

datatype error = InvalidParameter | InvalidInput | InvalidGrade

definition reviewStep_call ::
  "(SchedulerInput \<Rightarrow> 'e + SchedulerOutput) \<Rightarrow> ReviewStepInput \<Rightarrow> 'e + ReviewStepOutput" where
  "reviewStep_call schedule input =
     (let S = ReviewStepInput.S input;
          difficulty = ReviewStepInput.difficulty input;
          t = ReviewStepInput.t input;
          scheduled_t = ReviewStepInput.scheduled_t input;
          grade = ReviewStepInput.grade input;
          early = (case ReviewStepInput.early input of None \<Rightarrow> False | Some b \<Rightarrow> b);
          postponed = (case ReviewStepInput.postponed input of None \<Rightarrow> False | Some b \<Rightarrow> b);
          R_target = ReviewStepInput.R_target input;
          retentionSignals = ReviewStepInput.retentionSignals input;
          reviewsSoFarInSession =
            (case ReviewStepInput.reviewsSoFarInSession input of None \<Rightarrow> 0 | Some n \<Rightarrow> n);
          contextSignals = ReviewStepInput.contextSignals input;
          now = ReviewStepInput.now input;
          es = computeEffectiveState
                 \<lparr>EffectiveStateInput.S = S, t = t, scheduled_t = scheduled_t,
                  early = Some early, postponed = Some postponed, contextMultiplier = Some 1\<rparr>;
          R_eff = EffectiveState.R_eff es;
          t_eff = EffectiveState.t_eff es;
          pressure =
            (case retentionSignals of
               Some rs \<Rightarrow> computeLoadPressure (dueToday rs) (dailyCapacity rs)
             | None \<Rightarrow> 1.0);
          R_target_computed =
            (case R_target of
               Some x \<Rightarrow> x
             | None \<Rightarrow>
                 (case retentionSignals of
                    Some rs \<Rightarrow> computeRTarget rs 0.85 0.1 0.02
                  | None \<Rightarrow> 0.9));
          baseStrength = 0.5;
          adaptiveStrength = baseStrength * pressure;
          adjustedR_eff = applyAdaptiveRetention R_eff R_target_computed adaptiveStrength;
          S_new0 = updateStabilityTensor
                     \<lparr>StabilityUpdateInput.S = S, R_eff = adjustedR_eff, grade = gradeMap grade,
                      difficulty = difficulty, scheduled_t = scheduled_t, actual_t = Some t,
                      contextMultiplier = None, sessionMomentum = None\<rparr>;
          sessionMomentum = computeSessionMomentum reviewsSoFarInSession 0.02;
          contextMultiplier = computeContextMultiplier contextSignals;
          S_new1 = S_new0 * sessionMomentum * pressure * contextMultiplier;
          S_new2 =
            (if retentionSignals \<noteq> None \<and> pressure < 1.0
             then (let baselineR_eff =
                         EffectiveState.R_eff
                           (computeEffectiveState
                              \<lparr>EffectiveStateInput.S = S, t = t, scheduled_t = scheduled_t,
                               early = Some early, postponed = Some postponed,
                               contextMultiplier = Some 1\<rparr>);
                       baselineS_new = updateStabilityTensor
                                         \<lparr>StabilityUpdateInput.S = S, R_eff = baselineR_eff,
                                          grade = gradeMap grade, difficulty = difficulty,
                                          scheduled_t = scheduled_t, actual_t = Some t,
                                          contextMultiplier = None, sessionMomentum = None\<rparr>;
                       maxAllowedS_new =
                         baselineS_new * sessionMomentum * pressure * contextMultiplier
                   in min S_new1 maxAllowedS_new)
             else S_new1)
      in case schedule
                \<lparr>SchedulerInput.now = now, S_eff = S_new2, R_eff = adjustedR_eff, t_eff = t_eff,
                 grade = grade, difficulty = difficulty\<rparr> of
           Inl thrown \<Rightarrow> Inl thrown
         | Inr schedulerResult \<Rightarrow>
             Inr \<lparr>S_new = S_new2,
                  nextInterval = SchedulerOutput.nextInterval schedulerResult,
                  due = SchedulerOutput.due schedulerResult,
                  R_eff = adjustedR_eff,
                  t_eff = t_eff\<rparr>)"

section \<open>The load clamp as the spec words it\<close>

text \<open>
  Steps 1 to 6 of the pipeline as section 4.6 of the spec lists them, and the value
  the spec gives for step 7: the minimum of steps 1 to 6 on the input and of steps 1
  to 6 on the input with the retention signals omitted. These two definitions follow
  the spec, not the sources; they are compared with \<open>reviewStep\<close> below.
\<close>

definition spec_steps_1_to_6 :: "ReviewStepInput \<Rightarrow> real" where
  "spec_steps_1_to_6 input =
     (let eff = computeEffectiveState
                  \<lparr>EffectiveStateInput.S = ReviewStepInput.S input, t = ReviewStepInput.t input,
                   scheduled_t = ReviewStepInput.scheduled_t input,
                   early = Some (case ReviewStepInput.early input of None \<Rightarrow> False | Some b \<Rightarrow> b),
                   postponed =
                     Some (case ReviewStepInput.postponed input of None \<Rightarrow> False | Some b \<Rightarrow> b),
                   contextMultiplier = Some 1\<rparr>;
          pressure =
            (case retentionSignals input of
               Some rs \<Rightarrow> computeLoadPressure (dueToday rs) (dailyCapacity rs)
             | None \<Rightarrow> 1.0);
          target =
            (case R_target input of
               Some x \<Rightarrow> x
             | None \<Rightarrow>
                 (case retentionSignals input of
                    Some rs \<Rightarrow> computeRTarget rs 0.85 0.1 0.02
                  | None \<Rightarrow> 0.9));
          adjusted = applyAdaptiveRetention (EffectiveState.R_eff eff) target (0.5 * pressure);
          S5 = updateStabilityTensor
                 \<lparr>StabilityUpdateInput.S = ReviewStepInput.S input, R_eff = adjusted,
                  grade = gradeMap (ReviewStepInput.grade input),
                  difficulty = ReviewStepInput.difficulty input,
                  scheduled_t = ReviewStepInput.scheduled_t input,
                  actual_t = Some (ReviewStepInput.t input),
                  contextMultiplier = None, sessionMomentum = None\<rparr>
      in S5
           * computeSessionMomentum
               (case reviewsSoFarInSession input of None \<Rightarrow> 0 | Some n \<Rightarrow> n) 0.02
           * pressure
           * computeContextMultiplier (contextSignals input))"

definition spec_load_clamp :: "ReviewStepInput \<Rightarrow> real" where
  "spec_load_clamp input =
     min (spec_steps_1_to_6 input) (spec_steps_1_to_6 (input\<lparr>retentionSignals := None\<rparr>))"

section \<open>Slices of the review step\<close>

text \<open>
  The body of \<open>reviewStep\<close> cut at its numbered steps, so that the lemmas below can
  name its intermediate values: the effective state of step 1, the load pressure of
  step 2, the target of step 3, the adjusted recall of step 4, the tensor update of
  step 5 as a function of the recall it is given, and the two multipliers of step 6
  that do not depend on the load.
\<close>

definition step_effective :: "ReviewStepInput \<Rightarrow> EffectiveState" where
  "step_effective input =
     computeEffectiveState
       \<lparr>EffectiveStateInput.S = ReviewStepInput.S input, t = ReviewStepInput.t input,
        scheduled_t = ReviewStepInput.scheduled_t input,
        early = Some (case ReviewStepInput.early input of None \<Rightarrow> False | Some b \<Rightarrow> b),
        postponed = Some (case ReviewStepInput.postponed input of None \<Rightarrow> False | Some b \<Rightarrow> b),
        contextMultiplier = Some 1\<rparr>"

definition step_pressure :: "ReviewStepInput \<Rightarrow> real" where
  "step_pressure input =
     (case retentionSignals input of
        Some rs \<Rightarrow> computeLoadPressure (dueToday rs) (dailyCapacity rs)
      | None \<Rightarrow> 1.0)"

definition step_R_target :: "ReviewStepInput \<Rightarrow> real" where
  "step_R_target input =
     (case R_target input of
        Some x \<Rightarrow> x
      | None \<Rightarrow>
          (case retentionSignals input of
             Some rs \<Rightarrow> computeRTarget rs 0.85 0.1 0.02
           | None \<Rightarrow> 0.9))"

definition step_adjustedR_eff :: "ReviewStepInput \<Rightarrow> real" where
  "step_adjustedR_eff input =
     applyAdaptiveRetention (EffectiveState.R_eff (step_effective input)) (step_R_target input)
       (0.5 * step_pressure input)"

definition step_update :: "ReviewStepInput \<Rightarrow> real \<Rightarrow> real" where
  "step_update input r =
     updateStabilityTensor
       \<lparr>StabilityUpdateInput.S = ReviewStepInput.S input, R_eff = r,
        grade = gradeMap (ReviewStepInput.grade input),
        difficulty = ReviewStepInput.difficulty input,
        scheduled_t = ReviewStepInput.scheduled_t input,
        actual_t = Some (ReviewStepInput.t input),
        contextMultiplier = None, sessionMomentum = None\<rparr>"

definition step_momentum :: "ReviewStepInput \<Rightarrow> real" where
  "step_momentum input =
     computeSessionMomentum (case reviewsSoFarInSession input of None \<Rightarrow> 0 | Some n \<Rightarrow> n) 0.02"

definition step_context :: "ReviewStepInput \<Rightarrow> real" where
  "step_context input = computeContextMultiplier (contextSignals input)"

section \<open>Concrete inputs\<close>

text \<open>
  The inputs at which the theorems below evaluate the functions, and a few values
  computed from them that the proofs name.
\<close>

definition zero_stability_state :: MemoryState where
  "zero_stability_state = \<lparr>MemoryState.S = 0, difficulty = 5, t = 3, scheduled_t = None\<rparr>"

definition overshoot_state :: MemoryState where
  "overshoot_state = \<lparr>MemoryState.S = 36500, difficulty = 5, t = 5, scheduled_t = None\<rparr>"

definition overshoot_input :: ReviewStepInput where
  "overshoot_input =
     \<lparr>ReviewStepInput.S = 36500, difficulty = 5, t = 5, scheduled_t = None, grade = Good,
      early = None, postponed = None, R_target = None, retentionSignals = None,
      reviewsSoFarInSession = None,
      contextSignals = Some \<lparr>environmentQuality = Some 1, difficulty = None, timeOfDay = None\<rparr>,
      now = 0, scheduler = createMockScheduler 1.0\<rparr>"

definition negativeCapacitySignals :: RetentionSignals where
  "negativeCapacitySignals =
     \<lparr>backlogSize = 0, recentFailureRate = 0.1, sessionLength = 0,
      dailyCapacity = - 1, dueToday = 10, recentSuccessRate = None, userIntent = None\<rparr>"

definition negative_capacity_input :: ReviewStepInput where
  "negative_capacity_input =
     \<lparr>ReviewStepInput.S = 1, difficulty = 5, t = 0, scheduled_t = None, grade = Good,
      early = None, postponed = None, R_target = None,
      retentionSignals = Some negativeCapacitySignals,
      reviewsSoFarInSession = None, contextSignals = None,
      now = 0, scheduler = createMockScheduler 1.0\<rparr>"

definition zero_decay_params :: "real list" where
  "zero_decay_params = default_w[20 := 0]"

definition highLoadSignals :: RetentionSignals where
  "highLoadSignals =
     \<lparr>backlogSize = 30, recentFailureRate = 0.2, sessionLength = 45,
      dailyCapacity = 50, dueToday = 100, recentSuccessRate = None, userIntent = None\<rparr>"

definition high_load_input :: ReviewStepInput where
  "high_load_input =
     \<lparr>ReviewStepInput.S = 1, difficulty = 5, t = 0, scheduled_t = None, grade = Good,
      early = None, postponed = None, R_target = None,
      retentionSignals = Some highLoadSignals,
      reviewsSoFarInSession = None, contextSignals = None,
      now = 0, scheduler = createMockScheduler 1.0\<rparr>"

text \<open>The raw recall update at S = 1, difficulty 5, grade Good, as a function of r.\<close>

definition unit_raw :: "real \<Rightarrow> real" where
  "unit_raw r = 1 * (1 + exp 1.8722 * (11 - 5) * Math_pow 1 (- 0.1666) * (exp ((1 - r) * 0.796) - 1) * 1 * 1)"

text \<open>The factor that \<open>computeDecayFactor\<close> returns for the default parameters.\<close>

definition default_factor :: real where
  "default_factor = toFixed8 (exp (Math_pow (- 0.1542) (- 1) * ln 0.9) - 1.0)"

definition large_stability_input :: ReviewStepInput where
  "large_stability_input =
     \<lparr>ReviewStepInput.S = 1000, difficulty = 5, t = 5, scheduled_t = None, grade = Good,
      early = None, postponed = None, R_target = None, retentionSignals = None,
      reviewsSoFarInSession = None, contextSignals = None,
      now = 0, scheduler = createMockScheduler 1.0\<rparr>"

definition test_base_input :: ReviewStepInput where
  "test_base_input =
     \<lparr>ReviewStepInput.S = 10, difficulty = 5, t = 5, scheduled_t = None, grade = Good,
      early = None, postponed = None, R_target = None, retentionSignals = None,
      reviewsSoFarInSession = None, contextSignals = None,
      now = 0, scheduler = createMockScheduler 1.0\<rparr>"

definition scheduled_base_input :: ReviewStepInput where
  "scheduled_base_input =
     \<lparr>ReviewStepInput.S = 100, difficulty = 5, t = 5, scheduled_t = Some 4, grade = Good,
      early = None, postponed = None, R_target = None, retentionSignals = None,
      reviewsSoFarInSession = None, contextSignals = None,
      now = 0, scheduler = createMockScheduler 1.0\<rparr>"

text \<open>The raw recall update at S = 100, difficulty 5, grade Good, as a function of r.\<close>

definition hundred_raw :: "real \<Rightarrow> real" where
  "hundred_raw r =
     100 * (1 + exp 1.8722 * (11 - 5) * Math_pow 100 (- 0.1666) * (exp ((1 - r) * 0.796) - 1) * 1 * 1)"

definition hundred_gain :: real where
  "hundred_gain = 6 * exp 1.8722 * (100 powr (- 0.1666))"

section \<open>The review step in terms of its slices\<close>

lemmas step_defs = step_effective_def step_pressure_def step_R_target_def step_adjustedR_eff_def
  step_update_def step_momentum_def step_context_def

lemma S_new_reviewStep:
  "S_new (reviewStep input) =
     (if retentionSignals input \<noteq> None \<and> step_pressure input < 1
      then min (step_update input (step_adjustedR_eff input) * step_momentum input
                  * step_pressure input * step_context input)
               (step_update input (EffectiveState.R_eff (step_effective input)) * step_momentum input
                  * step_pressure input * step_context input)
      else step_update input (step_adjustedR_eff input) * step_momentum input
             * step_pressure input * step_context input)"
  unfolding reviewStep_def step_defs Let_def by simp

lemma R_eff_reviewStep:
  "ReviewStepOutput.R_eff (reviewStep input) = step_adjustedR_eff input"
  unfolding reviewStep_def step_defs Let_def by simp

lemma t_eff_reviewStep:
  "ReviewStepOutput.t_eff (reviewStep input) = EffectiveState.t_eff (step_effective input)"
  unfolding reviewStep_def step_defs Let_def by simp

section \<open>Rounding to eight fractional digits\<close>

lemma toFixed8_grid:
  "\<bar>real_of_int k\<bar> < 10 ^ 29 \<Longrightarrow> toFixed8 (of_int k / 10 ^ 8) = of_int k / 10 ^ 8"
proof -
  assume a: "\<bar>real_of_int k\<bar> < 10 ^ 29"
  have b: "\<bar>real_of_int k / 10 ^ 8\<bar> < 10 ^ 21"
    using a by (simp add: field_simps)
  show ?thesis
  proof (cases "k < 0")
    case True
    have "round (- (real_of_int k / 10 ^ 8) * 10 ^ 8) = - k"
      by (simp flip: of_int_minus)
    then show ?thesis using b True by (simp add: toFixed8_def)
  next
    case False
    have "round (real_of_int k / 10 ^ 8 * 10 ^ 8) = k" by simp
    then show ?thesis using b False by (simp add: toFixed8_def)
  qed
qed

lemma toFixed8_mono: "x \<le> y \<Longrightarrow> toFixed8 x \<le> toFixed8 y"
proof -
  assume xy: "x \<le> y"
  define r where "r = (\<lambda>z::real. real_of_int (round (z * 10 ^ 8)) / 10 ^ 8)"
  have r_mono: "r a \<le> r b" if "a \<le> b" for a b
    using that by (simp add: r_def divide_right_mono round_mono)
  have r_nonneg: "0 \<le> r a" if "0 \<le> a" for a
  proof -
    have "round (0::real) \<le> round (a * 10 ^ 8)" using that by (intro round_mono) simp
    then show ?thesis by (simp add: r_def)
  qed
  have r_big: "r a \<le> 10 ^ 21" if "a \<le> 10 ^ 21" for a
  proof -
    have "round (a * 10 ^ 8) \<le> round ((10::real) ^ 29)"
      using that by (intro round_mono) simp
    also have "round ((10::real) ^ 29) = 10 ^ 29"
      using round_of_int [of "10 ^ 29"] by simp
    finally have "real_of_int (round (a * 10 ^ 8)) \<le> 10 ^ 29"
      by (metis of_int_le_iff of_int_numeral of_int_power)
    then show ?thesis by (simp add: r_def field_simps)
  qed
  have tf: "toFixed8 z = (if 10 ^ 21 \<le> \<bar>z\<bar> then z else if z < 0 then - r (- z) else r z)" for z
    by (simp add: toFixed8_def r_def)
  consider (xb) "10 ^ 21 \<le> \<bar>x\<bar>" "10 ^ 21 \<le> \<bar>y\<bar>"
    | (xbig) "10 ^ 21 \<le> \<bar>x\<bar>" "\<bar>y\<bar> < 10 ^ 21"
    | (ybig) "\<bar>x\<bar> < 10 ^ 21" "10 ^ 21 \<le> \<bar>y\<bar>"
    | (small) "\<bar>x\<bar> < 10 ^ 21" "\<bar>y\<bar> < 10 ^ 21"
    by linarith
  then show ?thesis
  proof cases
    case xb
    then show ?thesis using xy by (simp add: tf)
  next
    case xbig
    then have xneg: "x \<le> - (10 ^ 21)" using xy by linarith
    show ?thesis
    proof (cases "y < 0")
      case True
      have "r (- y) \<le> 10 ^ 21" using xbig by (intro r_big) linarith
      then show ?thesis using xbig True xneg by (simp add: tf)
    next
      case False
      have "0 \<le> r y" using False by (intro r_nonneg) simp
      then show ?thesis using xbig False xneg by (simp add: tf)
    qed
  next
    case ybig
    then have ypos: "10 ^ 21 \<le> y" using xy by linarith
    show ?thesis
    proof (cases "x < 0")
      case True
      have "0 \<le> r (- x)" using True by (intro r_nonneg) simp
      then show ?thesis using ybig True ypos by (simp add: tf)
    next
      case False
      have "r x \<le> 10 ^ 21" using ybig by (intro r_big) linarith
      then show ?thesis using ybig False ypos by (simp add: tf)
    qed
  next
    case small
    show ?thesis
    proof (cases "x < 0")
      case xn: True
      show ?thesis
      proof (cases "y < 0")
        case True
        have "r (- y) \<le> r (- x)" using xy by (intro r_mono) simp
        then show ?thesis using small xn True by (simp add: tf)
      next
        case False
        have "0 \<le> r (- x)" "0 \<le> r y" using xn False by (auto intro!: r_nonneg)
        then show ?thesis using small xn False by (simp add: tf)
      qed
    next
      case xp: False
      then have yp: "\<not> y < 0" using xy by linarith
      have "r x \<le> r y" using xy by (intro r_mono)
      then show ?thesis using small xp yp by (simp add: tf)
    qed
  qed
qed

lemma toFixed8_nonneg: "0 \<le> x \<Longrightarrow> 0 \<le> toFixed8 x"
  using toFixed8_mono [of 0 x] by (simp add: toFixed8_def)

lemma toFixed8_36500: "toFixed8 36500 = 36500"
  using toFixed8_grid [of "3650000000000"] by simp

lemma toFixed8_error: "\<bar>toFixed8 x - x\<bar> \<le> 5 / 10 ^ 9"
proof -
  have e: "\<bar>real_of_int (round (z * 10 ^ 8)) / 10 ^ 8 - z\<bar> \<le> 5 / 10 ^ 9" for z :: real
  proof -
    have "\<bar>real_of_int (round (z * 10 ^ 8)) - z * 10 ^ 8\<bar> \<le> 1 / 2"
      by (rule of_int_round_abs_le)
    then have "real_of_int (round (z * 10 ^ 8)) - z * 10 ^ 8 \<le> 1 / 2"
      and "- (1 / 2) \<le> real_of_int (round (z * 10 ^ 8)) - z * 10 ^ 8"
      by linarith+
    then have "real_of_int (round (z * 10 ^ 8)) / 10 ^ 8 - z \<le> 5 / 10 ^ 9"
      and "- (5 / 10 ^ 9) \<le> real_of_int (round (z * 10 ^ 8)) / 10 ^ 8 - z"
      by (simp_all add: field_simps)
    then show ?thesis by linarith
  qed
  show ?thesis
  proof (cases "10 ^ 21 \<le> \<bar>x\<bar>")
    case True
    then show ?thesis by (simp add: toFixed8_def)
  next
    case False
    show ?thesis
    proof (cases "x < 0")
      case True
      have "\<bar>- (real_of_int (round (- x * 10 ^ 8)) / 10 ^ 8) - x\<bar>
          = \<bar>real_of_int (round (- x * 10 ^ 8)) / 10 ^ 8 - (- x)\<bar>" by linarith
      then show ?thesis using e [of "- x"] False True by (simp add: toFixed8_def)
    next
      case xp: False
      then show ?thesis using e [of x] False by (simp add: toFixed8_def)
    qed
  qed
qed

lemma toFixed8_near:
  "toFixed8 x \<le> x + 5 / 1000000000" "x - 5 / 1000000000 \<le> toFixed8 x"
  using toFixed8_error [of x] unfolding abs_le_iff by simp_all

lemma toFixed8_strict:
  assumes "x + 2 / 100000000 \<le> y"
  shows "toFixed8 x < toFixed8 y"
  using toFixed8_near(1) [of x] toFixed8_near(2) [of y] assms by linarith

lemma toFixed8_values: "toFixed8 (99 / 100) = 99 / 100" "toFixed8 (49 / 50) = 49 / 50"
  using toFixed8_grid [of 99000000] toFixed8_grid [of 98000000] by simp_all

lemma toFixed8_9899: "toFixed8 (9899 / 10000) = 9899 / 10000" "toFixed8 (1 / 2) = 1 / 2"
  using toFixed8_grid [of 98990000] toFixed8_grid [of 50000000] by simp_all

section \<open>Clamping, powers and exponentials\<close>

lemma exp_2_le: "exp (2::real) \<le> 9"
proof -
  have "exp (2::real) = exp 1 * exp 1" by (simp flip: exp_add)
  also have "\<dots> \<le> 3 * 3" by (intro mult_mono exp_le) simp_all
  finally show ?thesis by simp
qed

lemma clamp_id:
  fixes x :: real
  shows "lo \<le> x \<Longrightarrow> x \<le> hi \<Longrightarrow> min hi (max lo x) = x"
  by simp

lemma clamp_mono: "v1 \<le> v2 \<Longrightarrow> clamp v1 lo hi \<le> clamp v2 lo hi"
  unfolding clamp_def by (intro min.mono max.mono) simp_all

lemma clamp_top: "hi \<le> v \<Longrightarrow> clamp v lo hi = hi"
  by (simp add: clamp_def)

lemma clamp_le_hi: "clamp v lo hi \<le> hi"
  by (simp add: clamp_def)

lemma Math_pow_pos: "0 < b \<Longrightarrow> Math_pow b e = b powr e"
  by (simp add: Math_pow_def)

lemma Math_pow_nonneg: "0 < b \<Longrightarrow> 0 \<le> Math_pow b e"
  by (simp add: Math_pow_pos)

lemma Math_pow_minus_one: "b \<noteq> 0 \<Longrightarrow> Math_pow b (- 1) = 1 / b"
proof -
  assume b: "b \<noteq> 0"
  show ?thesis
  proof (cases "0 < b")
    case True
    then show ?thesis by (simp add: Math_pow_def powr_minus_divide)
  next
    case False
    have "\<lfloor>- 1 :: real\<rfloor> = - 1" using floor_of_int [of "- 1", where ?'a = real] by simp
    then show ?thesis using False b by (simp add: Math_pow_def power_int_minus field_simps)
  qed
qed

section \<open>Ranges of the policy values\<close>

lemma default_w_nth:
  "default_w ! 8 = 1.8722" "default_w ! 9 = 0.1666" "default_w ! 10 = 0.796"
  "default_w ! 15 = 0.6014" "default_w ! 16 = 1.8729" "default_w ! 20 = 0.1542"
  by (simp_all add: default_w_def FSRS6_DEFAULT_DECAY_def)

lemma updateStabilityTensor_range:
  "0.1 \<le> updateStabilityTensor u \<and> updateStabilityTensor u \<le> 36500"
  unfolding updateStabilityTensor_def Let_def by (simp add: min_def max_def)

lemma computeSessionMomentum_range:
  "0.9 \<le> computeSessionMomentum n k \<and> computeSessionMomentum n k \<le> 1"
  unfolding computeSessionMomentum_def Let_def by (simp add: min_def max_def)

lemma computeLoadPressure_range:
  "0.85 \<le> computeLoadPressure dt cap \<and> computeLoadPressure dt cap \<le> 1"
  unfolding computeLoadPressure_def by (simp add: min_def max_def)

lemma computeContextMultiplier_range:
  "0.85 \<le> computeContextMultiplier sg \<and> computeContextMultiplier sg \<le> 1.05"
proof (cases sg)
  case None
  then show ?thesis by (simp add: computeContextMultiplier_def)
next
  case (Some a)
  show ?thesis unfolding computeContextMultiplier_def Let_def Some option.case
    by (simp add: min_def max_def)
qed

lemma applyAdaptiveRetention_range:
  "0.01 \<le> applyAdaptiveRetention r tg st \<and> applyAdaptiveRetention r tg st \<le> 0.99"
  unfolding applyAdaptiveRetention_def Let_def by (simp add: min_def max_def)

lemma computeEffectiveState_R_range:
  "0.01 \<le> EffectiveState.R_eff (computeEffectiveState i)
   \<and> EffectiveState.R_eff (computeEffectiveState i) \<le> 0.99"
  unfolding computeEffectiveState_def Let_def EffectiveState.simps by (simp add: min_def max_def)

lemma step_ranges:
  "0.85 \<le> step_pressure input" "step_pressure input \<le> 1"
  "0.9 \<le> step_momentum input" "step_momentum input \<le> 1"
  "0.85 \<le> step_context input" "step_context input \<le> 1.05"
  "0.1 \<le> step_update input r" "step_update input r \<le> 36500"
  "0.01 \<le> step_adjustedR_eff input" "step_adjustedR_eff input \<le> 0.99"
  using computeLoadPressure_range computeSessionMomentum_range computeContextMultiplier_range
    updateStabilityTensor_range applyAdaptiveRetention_range
  by (simp_all add: step_pressure_def step_momentum_def step_context_def step_update_def
      step_adjustedR_eff_def split: option.splits)

section \<open>The forgetting curve and the monotonicity of the stages\<close>

lemma default_exponent:
  "Math_pow (- 0.1542) (- 1) * ln 0.9 = (1 / 0.1542) * ln (10 / 9)"
proof -
  have "ln (10 / 9 :: real) = - ln (9 / 10)"
    using ln_inverse [of "9 / 10 :: real"] by simp
  then show ?thesis by (simp add: Math_pow_minus_one)
qed

lemma default_exponent_finite: "\<not> EXP_OVERFLOW < Math_pow (- 0.1542) (- 1) * ln 0.9"
proof -
  have l: "0 \<le> ln (10 / 9 :: real)" by simp
  have "ln (10 / 9 :: real) \<le> 10 / 9 - 1" by (rule ln_le_minus_one) simp
  then have l1: "ln (10 / 9 :: real) \<le> 1 / 9" by simp
  have "(1 / 0.1542) * ln (10 / 9 :: real) \<le> 7 * ln (10 / 9)"
    using l by (intro mult_right_mono) simp_all
  then have "(1 / 0.1542) * ln (10 / 9 :: real) \<le> 7 / 9" using l1 by linarith
  moreover have "7 / 9 \<le> EXP_OVERFLOW" by (simp add: EXP_OVERFLOW_def)
  ultimately have "(1 / 0.1542) * ln (10 / 9 :: real) \<le> EXP_OVERFLOW" by (rule order_trans)
  then show ?thesis unfolding default_exponent by (simp only: not_less)
qed

lemma computeDecayFactor_default:
  "computeDecayFactor (Params default_w) = \<lparr>decay = - 0.1542, factor = Finite default_factor\<rparr>"
  using default_exponent_finite
  by (simp add: computeDecayFactor_def default_w_nth default_factor_def Let_def)

lemma default_factor_bounds: "0.88 \<le> default_factor" "default_factor \<le> 1.091"
proof -
  have l: "0 \<le> ln (10 / 9 :: real)" by simp
  have e6: "exp (6 * ln (10 / 9 :: real)) = (10 / 9) ^ 6"
    using exp_of_nat_mult [of 6 "ln (10 / 9 :: real)"] by simp
  have e7: "exp (7 * ln (10 / 9 :: real)) = (10 / 9) ^ 7"
    using exp_of_nat_mult [of 7 "ln (10 / 9 :: real)"] by simp
  have "6 * ln (10 / 9 :: real) \<le> (1 / 0.1542) * ln (10 / 9)"
    using l by (intro mult_right_mono) simp_all
  then have "exp (6 * ln (10 / 9 :: real)) \<le> exp (Math_pow (- 0.1542) (- 1) * ln 0.9)"
    unfolding default_exponent by simp
  then have lo: "(10 / 9) ^ 6 \<le> exp (Math_pow (- 0.1542) (- 1) * ln 0.9)"
    unfolding e6 .
  have "(1 / 0.1542) * ln (10 / 9 :: real) \<le> 7 * ln (10 / 9)"
    using l by (intro mult_right_mono) simp_all
  then have "exp (Math_pow (- 0.1542) (- 1) * ln 0.9) \<le> exp (7 * ln (10 / 9 :: real))"
    unfolding default_exponent by simp
  then have hi: "exp (Math_pow (- 0.1542) (- 1) * ln 0.9) \<le> (10 / 9) ^ 7"
    unfolding e7 .
  have "(0.8816 :: real) \<le> (10 / 9) ^ 6 - 1" by (simp add: power_divide)
  then have "0.8816 \<le> exp (Math_pow (- 0.1542) (- 1) * ln 0.9) - 1.0" using lo by simp
  then show "0.88 \<le> default_factor"
    unfolding default_factor_def
    using toFixed8_near(2) [of "exp (Math_pow (- 0.1542) (- 1) * ln 0.9) - 1.0"] by simp
  have "(10 / 9 :: real) ^ 7 - 1 \<le> 1.0908" by (simp add: power_divide)
  then have "exp (Math_pow (- 0.1542) (- 1) * ln 0.9) - 1.0 \<le> 1.0908" using hi by simp
  then show "default_factor \<le> 1.091"
    unfolding default_factor_def
    using toFixed8_near(1) [of "exp (Math_pow (- 0.1542) (- 1) * ln 0.9) - 1.0"] by simp
qed

lemma forgetting_curve_default:
  assumes "0 < s" "0 \<le> te"
  shows "forgetting_curve (Params default_w) te s
           = toFixed8 ((1 + default_factor * te / s) powr (- 0.1542))"
proof -
  have "0 \<le> default_factor * te / s"
    using assms default_factor_bounds(1) by simp
  then have "0 < 1 + default_factor * te / s" by linarith
  then show ?thesis
    by (simp add: forgetting_curve_def computeDecayFactor_default Math_pow_def)
qed

lemma recall_base_ge_1:
  assumes "0 < s" "0 \<le> te"
  shows "1 \<le> 1 + default_factor * te / s"
  using assms default_factor_bounds(1) by simp

lemma forgetting_curve_antimono:
  assumes "0 < s" "0 \<le> t1" "t1 \<le> t2"
  shows "forgetting_curve (Params default_w) t2 s \<le> forgetting_curve (Params default_w) t1 s"
proof -
  have f: "0 \<le> default_factor" using default_factor_bounds(1) by simp
  have "default_factor * t1 \<le> default_factor * t2" using assms f by (intro mult_left_mono)
  then have "default_factor * t1 / s \<le> default_factor * t2 / s"
    using assms by (intro divide_right_mono) simp_all
  then have le: "1 + default_factor * t1 / s \<le> 1 + default_factor * t2 / s" by simp
  have pos: "0 < 1 + default_factor * t1 / s" using recall_base_ge_1 [OF assms(1,2)] by linarith
  have "(1 + default_factor * t2 / s) powr (- 0.1542) \<le> (1 + default_factor * t1 / s) powr (- 0.1542)"
    using pos le by (intro powr_mono2') simp_all
  then show ?thesis
    using assms by (simp add: forgetting_curve_default toFixed8_mono)
qed

lemma powr_decay_lower:
  fixes b c :: real
  assumes "1 \<le> c" "0 < b" "b \<le> c ^ 6"
  shows "1 / c \<le> b powr (- 0.1542)"
proof -
  have c0: "0 < c" using assms by linarith
  have "c powr (- 1) \<le> c powr (6 * (- 0.1542))" using assms by (intro powr_mono) simp_all
  also have "\<dots> = (c powr 6) powr (- 0.1542)" by (simp add: powr_powr)
  also have "\<dots> = (c ^ 6) powr (- 0.1542)" using c0 by simp
  also have "\<dots> \<le> b powr (- 0.1542)" using assms by (intro powr_mono2') simp_all
  finally show ?thesis using c0 by (simp add: powr_minus_divide)
qed

lemma powr_decay_upper:
  fixes b c :: real
  assumes "1 \<le> c" "c ^ 7 \<le> b"
  shows "b powr (- 0.1542) \<le> 1 / c"
proof -
  have c0: "0 < c" using assms by linarith
  have c7: "0 < c ^ 7" using c0 by simp
  have "b powr (- 0.1542) \<le> (c ^ 7) powr (- 0.1542)" using assms c7 by (intro powr_mono2') simp_all
  also have "\<dots> = (c powr 7) powr (- 0.1542)" using c0 by simp
  also have "\<dots> = c powr (7 * (- 0.1542))" by (simp add: powr_powr)
  also have "\<dots> \<le> c powr (- 1)" using assms by (intro powr_mono) simp_all
  finally show ?thesis using c0 by (simp add: powr_minus_divide)
qed

lemma applyAdaptiveRetention_mono:
  assumes "r1 \<le> r2" "st \<le> 1"
  shows "applyAdaptiveRetention r1 tg st \<le> applyAdaptiveRetention r2 tg st"
proof -
  have "(1 - st) * r1 \<le> (1 - st) * r2" using assms by (intro mult_left_mono) simp_all
  then have "r1 + st * (tg - r1) \<le> r2 + st * (tg - r2)" by (simp add: algebra_simps)
  then show ?thesis
    unfolding applyAdaptiveRetention_def Let_def by (intro min.mono max.mono) simp_all
qed

lemma grade_factors_nonneg:
  "0 \<le> (if Rating_Hard = gradeMap g then default_w ! 15 else 1)"
  "0 \<le> (if Rating_Easy = gradeMap g then default_w ! 16 else 1)"
  by (simp_all add: default_w_nth)

lemma next_recall_stability_antimono:
  assumes "0 < s" "d \<le> 11" "r1 \<le> r2"
  shows "next_recall_stability default_w d s r2 (gradeMap g)
           \<le> next_recall_stability default_w d s r1 (gradeMap g)"
proof -
  define k where "k = exp (default_w ! 8) * (11 - d) * Math_pow s (- (default_w ! 9))"
  define hp where "hp = (if Rating_Hard = gradeMap g then default_w ! 15 else 1)"
  define eb where "eb = (if Rating_Easy = gradeMap g then default_w ! 16 else 1)"
  have k0: "0 \<le> k" unfolding k_def using assms Math_pow_nonneg [of s] by simp
  have h0: "0 \<le> hp" "0 \<le> eb" unfolding hp_def eb_def by (rule grade_factors_nonneg)+
  have "exp ((1 - r2) * default_w ! 10) - 1 \<le> exp ((1 - r1) * default_w ! 10) - 1"
    using assms by (simp add: default_w_nth)
  then have "k * (exp ((1 - r2) * default_w ! 10) - 1) \<le> k * (exp ((1 - r1) * default_w ! 10) - 1)"
    by (rule mult_left_mono [OF _ k0])
  then have "k * (exp ((1 - r2) * default_w ! 10) - 1) * hp \<le> k * (exp ((1 - r1) * default_w ! 10) - 1) * hp"
    by (rule mult_right_mono [OF _ h0(1)])
  then have "k * (exp ((1 - r2) * default_w ! 10) - 1) * hp * eb
      \<le> k * (exp ((1 - r1) * default_w ! 10) - 1) * hp * eb"
    by (rule mult_right_mono [OF _ h0(2)])
  then have "s * (1 + k * (exp ((1 - r2) * default_w ! 10) - 1) * hp * eb)
      \<le> s * (1 + k * (exp ((1 - r1) * default_w ! 10) - 1) * hp * eb)"
    using assms by (intro mult_left_mono) simp_all
  then show ?thesis
    unfolding next_recall_stability_def Let_def k_def hp_def eb_def
    by (intro toFixed8_mono clamp_mono)
qed

lemma computeEffectiveState_t_eff:
  "EffectiveState.t_eff (computeEffectiveState i)
     = (let t0 = (case EffectiveStateInput.scheduled_t i of
                    Some st \<Rightarrow> (if EffectiveStateInput.t i > st
                                then (EffectiveStateInput.t i - st) + 1.5 * st
                                else EffectiveStateInput.t i)
                  | None \<Rightarrow> EffectiveStateInput.t i);
            t1 = (if (case EffectiveStateInput.early i of None \<Rightarrow> False | Some b \<Rightarrow> b)
                  then max 0 (t0 * 0.85) else t0)
        in if (case EffectiveStateInput.postponed i of None \<Rightarrow> False | Some b \<Rightarrow> b)
              \<and> EffectiveStateInput.scheduled_t i = None
           then t1 * 1.15 else t1)"
  unfolding computeEffectiveState_def Let_def EffectiveState.simps ..

lemma computeEffectiveState_R_eff:
  "EffectiveState.R_eff (computeEffectiveState i)
     = min 0.99 (max 0.01 (forgetting_curve (Params default_w)
         (EffectiveState.t_eff (computeEffectiveState i)) (EffectiveStateInput.S i)
         * (case EffectiveStateInput.contextMultiplier i of None \<Rightarrow> 1 | Some m \<Rightarrow> m)))"
  unfolding computeEffectiveState_def Let_def EffectiveState.simps ..

lemma step_effective_R_eff:
  "EffectiveState.R_eff (step_effective input)
     = min 0.99 (max 0.01 (forgetting_curve (Params default_w)
         (EffectiveState.t_eff (step_effective input)) (ReviewStepInput.S input)))"
  unfolding step_effective_def computeEffectiveState_R_eff by simp

lemma step_effective_t_eff:
  "EffectiveState.t_eff (step_effective input)
     = (let t0 = (case ReviewStepInput.scheduled_t input of
                    Some st \<Rightarrow> (if ReviewStepInput.t input > st
                                then (ReviewStepInput.t input - st) + 1.5 * st
                                else ReviewStepInput.t input)
                  | None \<Rightarrow> ReviewStepInput.t input);
            t1 = (if (case ReviewStepInput.early input of None \<Rightarrow> False | Some b \<Rightarrow> b)
                  then max 0 (t0 * 0.85) else t0)
        in if (case ReviewStepInput.postponed input of None \<Rightarrow> False | Some b \<Rightarrow> b)
              \<and> ReviewStepInput.scheduled_t input = None
           then t1 * 1.15 else t1)"
  unfolding step_effective_def computeEffectiveState_t_eff
  by (simp cong: option.case_cong if_cong)

lemma effective_recall_antimono:
  assumes "0 < s" "0 \<le> t1" "t1 \<le> t2"
  shows "min 0.99 (max 0.01 (forgetting_curve (Params default_w) t2 s))
       \<le> min 0.99 (max 0.01 (forgetting_curve (Params default_w) t1 s))"
  using forgetting_curve_antimono [OF assms] by (intro min.mono max.mono) simp_all

lemma step_update_unpenalised:
  assumes "ReviewStepInput.scheduled_t input = None
           \<or> (\<exists>st. ReviewStepInput.scheduled_t input = Some st \<and> ReviewStepInput.t input \<le> st)"
  shows "step_update input r
           = min 36500 (max 0.1 (next_recall_stability default_w (ReviewStepInput.difficulty input)
               (ReviewStepInput.S input) r (gradeMap (ReviewStepInput.grade input))))"
  using assms by (auto simp add: step_update_def updateStabilityTensor_def Let_def)

lemma scaled_mono:
  fixes u1 u2 m p c :: real
  assumes "u1 \<le> u2" "0 \<le> m" "0 \<le> p" "0 \<le> c"
  shows "u1 * m * p * c \<le> u2 * m * p * c"
  using assms by (intro mult_right_mono) simp_all

lemma step_nonneg:
  "0 \<le> step_momentum input" "0 \<le> step_pressure input" "0 \<le> step_context input"
  using step_ranges(3) [of input] step_ranges(1) [of input] step_ranges(5) [of input] by simp_all

lemma forgetting_curve_zero_elapsed: "forgetting_curve (Params default_w) 0 s = 1"
proof -
  have "toFixed8 1 = 1" using toFixed8_grid [of 100000000] by simp
  then show ?thesis
    by (simp add: forgetting_curve_def computeDecayFactor_default Math_pow_def)
qed

lemma forgetting_curve_lower:
  assumes "0 < s" "0 \<le> te" "1 \<le> c" "1 + 1.091 * te / s \<le> c ^ 6"
  shows "toFixed8 (1 / c) \<le> forgetting_curve (Params default_w) te s"
proof -
  have "default_factor * te \<le> 1.091 * te"
    using assms default_factor_bounds(2) by (intro mult_right_mono) simp_all
  then have "default_factor * te / s \<le> 1.091 * te / s"
    using assms by (intro divide_right_mono) simp_all
  then have b: "1 + default_factor * te / s \<le> c ^ 6" using assms by linarith
  have "0 < 1 + default_factor * te / s" using recall_base_ge_1 [OF assms(1,2)] by linarith
  then have "1 / c \<le> (1 + default_factor * te / s) powr (- 0.1542)"
    using assms b by (intro powr_decay_lower)
  then show ?thesis using assms by (simp add: forgetting_curve_default toFixed8_mono)
qed

lemma forgetting_curve_upper:
  assumes "0 < s" "0 \<le> te" "1 \<le> c" "c ^ 7 \<le> 1 + 0.88 * te / s"
  shows "forgetting_curve (Params default_w) te s \<le> toFixed8 (1 / c)"
proof -
  have "0.88 * te \<le> default_factor * te"
    using assms default_factor_bounds(1) by (intro mult_right_mono) simp_all
  then have "0.88 * te / s \<le> default_factor * te / s"
    using assms by (intro divide_right_mono) simp_all
  then have b: "c ^ 7 \<le> 1 + default_factor * te / s" using assms by linarith
  have "(1 + default_factor * te / s) powr (- 0.1542) \<le> 1 / c"
    using assms b by (intro powr_decay_upper)
  then show ?thesis using assms by (simp add: forgetting_curve_default toFixed8_mono)
qed

lemma adaptive_default:
  assumes "0.01 \<le> r" "r \<le> 0.99"
  shows "applyAdaptiveRetention r 0.9 (0.5 * 1.0) = 0.5 * r + 0.45"
proof -
  have e: "r + 0.5 * 1.0 * (0.9 - r) = 0.5 * r + 0.45" by (simp add: algebra_simps)
  have "0.01 \<le> 0.5 * r + 0.45" "0.5 * r + 0.45 \<le> 0.99" using assms by simp_all
  then show ?thesis unfolding applyAdaptiveRetention_def Let_def e by (rule clamp_id)
qed

section \<open>Scheduler isolation\<close>

lemma step_scheduler [simp]:
  "step_effective (input\<lparr>scheduler := sch\<rparr>) = step_effective input"
  "step_pressure (input\<lparr>scheduler := sch\<rparr>) = step_pressure input"
  "step_R_target (input\<lparr>scheduler := sch\<rparr>) = step_R_target input"
  "step_update (input\<lparr>scheduler := sch\<rparr>) r = step_update input r"
  "step_momentum (input\<lparr>scheduler := sch\<rparr>) = step_momentum input"
  "step_context (input\<lparr>scheduler := sch\<rparr>) = step_context input"
  by (simp_all add: step_defs split: option.splits)

lemma step_adjusted_scheduler [simp]:
  "step_adjustedR_eff (input\<lparr>scheduler := sch\<rparr>) = step_adjustedR_eff input"
  by (simp add: step_adjustedR_eff_def)

text \<open>
  Claim C2. Two calls of \<open>reviewStep\<close> that differ in the scheduler only return the
  same \<open>S_new\<close>, the same \<open>R_eff\<close> and the same \<open>t_eff\<close>: the scheduler is called
  last and only \<open>nextInterval\<close> and \<open>due\<close> are read from its result.
\<close>

theorem reviewStep_scheduler_isolation:
  "S_new (reviewStep (input\<lparr>scheduler := sch1\<rparr>)) = S_new (reviewStep (input\<lparr>scheduler := sch2\<rparr>))
   \<and> ReviewStepOutput.R_eff (reviewStep (input\<lparr>scheduler := sch1\<rparr>))
       = ReviewStepOutput.R_eff (reviewStep (input\<lparr>scheduler := sch2\<rparr>))
   \<and> ReviewStepOutput.t_eff (reviewStep (input\<lparr>scheduler := sch1\<rparr>))
       = ReviewStepOutput.t_eff (reviewStep (input\<lparr>scheduler := sch2\<rparr>))"
  by (simp add: S_new_reviewStep R_eff_reviewStep t_eff_reviewStep)

section \<open>Grade Again against grade Good\<close>

lemma step_grade_irrelevant [simp]:
  "step_effective (input\<lparr>ReviewStepInput.grade := g\<rparr>) = step_effective input"
  "step_pressure (input\<lparr>ReviewStepInput.grade := g\<rparr>) = step_pressure input"
  "step_R_target (input\<lparr>ReviewStepInput.grade := g\<rparr>) = step_R_target input"
  "step_momentum (input\<lparr>ReviewStepInput.grade := g\<rparr>) = step_momentum input"
  "step_context (input\<lparr>ReviewStepInput.grade := g\<rparr>) = step_context input"
  by (simp_all add: step_defs split: option.splits)

lemma step_adjusted_grade [simp]:
  "step_adjustedR_eff (input\<lparr>ReviewStepInput.grade := g\<rparr>) = step_adjustedR_eff input"
  by (simp add: step_adjustedR_eff_def)

lemma next_recall_stability_again_good:
  "next_recall_stability params d s r (Suc 0) = next_recall_stability params d s r 3"
  by (simp add: next_recall_stability_def Rating_Hard_def Rating_Easy_def)

lemma step_update_again_good:
  "step_update (input\<lparr>ReviewStepInput.grade := Again\<rparr>) r
     = step_update (input\<lparr>ReviewStepInput.grade := Good\<rparr>) r"
  by (simp add: step_update_def updateStabilityTensor_def next_recall_stability_again_good)

text \<open>
  Claim C9. The hard penalty applies to grade Hard only and the easy bonus to grade
  Easy only, so \<open>next_recall_stability\<close> returns the same value for Again as for Good;
  \<open>updateStabilityTensor\<close> calls nothing else that reads the grade, and \<open>reviewStep\<close>
  uses the grade for the tensor update and the scheduler only, so both return the same
  stability for Again as for Good at otherwise identical inputs.
\<close>

theorem again_updates_like_good:
  "next_recall_stability params d s r Rating_Again = next_recall_stability params d s r Rating_Good
   \<and> updateStabilityTensor (u\<lparr>StabilityUpdateInput.grade := Rating_Again\<rparr>)
       = updateStabilityTensor (u\<lparr>StabilityUpdateInput.grade := Rating_Good\<rparr>)
   \<and> S_new (reviewStep (input\<lparr>ReviewStepInput.grade := Again\<rparr>))
       = S_new (reviewStep (input\<lparr>ReviewStepInput.grade := Good\<rparr>))"
proof (intro conjI)
  show "next_recall_stability params d s r Rating_Again = next_recall_stability params d s r Rating_Good"
    by (simp add: Rating_Again_def Rating_Good_def next_recall_stability_again_good)
  show "updateStabilityTensor (u\<lparr>StabilityUpdateInput.grade := Rating_Again\<rparr>)
       = updateStabilityTensor (u\<lparr>StabilityUpdateInput.grade := Rating_Good\<rparr>)"
    by (simp add: updateStabilityTensor_def Rating_Again_def Rating_Good_def
        next_recall_stability_again_good)
  show "S_new (reviewStep (input\<lparr>ReviewStepInput.grade := Again\<rparr>))
       = S_new (reviewStep (input\<lparr>ReviewStepInput.grade := Good\<rparr>))"
    by (simp add: S_new_reviewStep step_update_again_good)
qed

section \<open>Bounds on the stability\<close>

lemma next_recall_stability_top:
  assumes "r \<le> 1"
  shows "next_recall_stability default_w 5 36500 r 3 = 36500"
proof -
  have e: "0 \<le> exp ((1 - r) * 0.796) - 1" using assms by simp
  have "0 \<le> exp 1.8722 * (11 - 5) * Math_pow 36500 (- 0.1666) * (exp ((1 - r) * 0.796) - 1)"
    using e Math_pow_nonneg [of 36500 "- 0.1666"] by simp
  then have "36500 * 1 \<le> 36500 * (1 + exp 1.8722 * (11 - 5) * Math_pow 36500 (- 0.1666)
      * (exp ((1 - r) * 0.796) - 1))"
    by (intro mult_left_mono) simp_all
  then have "clamp (36500 * (1 + exp 1.8722 * (11 - 5) * Math_pow 36500 (- 0.1666)
      * (exp ((1 - r) * 0.796) - 1))) S_MIN 36500 = 36500"
    by (simp add: clamp_def S_MIN_def)
  then show ?thesis
    by (simp add: next_recall_stability_def default_w_nth Rating_Hard_def Rating_Easy_def
        toFixed8_36500)
qed

lemma overshoot_S_new: "S_new (reviewStep overshoot_input) = 38325"
proof -
  have r: "step_adjustedR_eff overshoot_input \<le> 1" using step_ranges(10) [of overshoot_input] by simp
  have u: "step_update overshoot_input (step_adjustedR_eff overshoot_input) = 36500"
    using next_recall_stability_top [OF r]
    by (simp add: step_update_def updateStabilityTensor_def overshoot_input_def)
  have m: "step_momentum overshoot_input = 1"
    by (simp add: step_momentum_def computeSessionMomentum_def overshoot_input_def)
  have p: "step_pressure overshoot_input = 1"
    by (simp add: step_pressure_def overshoot_input_def)
  have c: "step_context overshoot_input = 1.05"
    by (simp add: step_context_def computeContextMultiplier_def overshoot_input_def)
  have n: "retentionSignals overshoot_input = None" by (simp add: overshoot_input_def)
  show ?thesis by (simp add: S_new_reviewStep n u m p c)
qed

text \<open>
  Claim C3. \<open>updateStabilityTensor\<close> clamps its result to [0.1, 36500], "to ensure
  valid stability values", but \<open>reviewStep\<close> multiplies that result by the session
  momentum, the load pressure and the context multiplier after the clamp and does not
  clamp again. For the valid memory state S = 36500, difficulty 5, t = 5, reviewed
  with grade Good and the context signal environmentQuality = 1, the tensor update
  returns 36500 and step 6 multiplies it by the context multiplier 1.05: \<open>reviewStep\<close>
  returns \<open>S_new = 38325\<close>, which is not in [0.1, 36500]. \<open>Tensor.review\<close> and
  \<open>Deck.processReview\<close> keep that value as the stability of the card, and
  \<open>validateMemoryState\<close> rejects the state they keep.
\<close>

theorem reviewStep_S_new_exceeds_36500:
  "validateMemoryState overshoot_state = \<lparr>valid = True, errors = []\<rparr>
   \<and> S_new (reviewStep overshoot_input) = 38325
   \<and> \<not> S_new (reviewStep overshoot_input) \<le> 36500
   \<and> validateMemoryState (newMemoryState overshoot_state (reviewStep overshoot_input))
       = \<lparr>valid = False, errors = [''Stability (S) exceeds maximum allowed value (36500)'']\<rparr>"
  by (simp add: overshoot_S_new newMemoryState_def validateMemoryState_def overshoot_state_def
      Let_def)

section \<open>No validation in the review step\<close>

lemma reviewStep_call_returns:
  "reviewStep_call (\<lambda>i. Inr (scheduler input i)) input = Inr (reviewStep input)"
  unfolding reviewStep_call_def reviewStep_def Let_def by simp

lemma negative_capacity_fields:
  "retentionSignals negative_capacity_input = Some negativeCapacitySignals"
  "scheduler negative_capacity_input = createMockScheduler 1.0"
  "dailyCapacity negativeCapacitySignals = - 1"
  "dueToday negativeCapacitySignals = 10"
  by (simp_all add: negative_capacity_input_def negativeCapacitySignals_def)

lemma negative_capacity_effective:
  "step_effective negative_capacity_input = \<lparr>EffectiveState.R_eff = 0.99, t_eff = 0\<rparr>"
  by (simp add: step_effective_def computeEffectiveState_def negative_capacity_input_def
      forgetting_curve_zero_elapsed Let_def)

lemma negative_capacity_R_eff: "step_adjustedR_eff negative_capacity_input = 0.97725"
proof -
  have p: "step_pressure negative_capacity_input = 0.85"
    by (simp add: step_pressure_def computeLoadPressure_def negative_capacity_fields)
  have tg: "step_R_target negative_capacity_input = 0.96"
    by (simp add: step_R_target_def computeRTarget_def Let_def negative_capacity_input_def
        negativeCapacitySignals_def)
  show ?thesis
    unfolding step_adjustedR_eff_def p tg negative_capacity_effective
    by (simp add: applyAdaptiveRetention_def Let_def)
qed

text \<open>
  Claim C4, counterexample. With the retention signals dailyCapacity = -1 and
  dueToday = 10 (S = 1, difficulty 5, t = 0, grade Good, every number finite, the mock
  scheduler of \<open>integration.ts\<close>, which returns) \<open>reviewStep\<close> does not fail with
  \<open>InvalidInput\<close>: it returns a result, built from the negative capacity, whose
  \<open>R_eff\<close> is 0.97725 and whose \<open>t_eff\<close> is 0.
\<close>

theorem reviewStep_returns_on_negative_capacity:
  "dailyCapacity negativeCapacitySignals < 0
   \<and> retentionSignals negative_capacity_input = Some negativeCapacitySignals
   \<and> reviewStep_call (\<lambda>i. Inr (createMockScheduler 1.0 i)) negative_capacity_input
       \<noteq> Inl InvalidInput
   \<and> reviewStep_call (\<lambda>i. Inr (createMockScheduler 1.0 i)) negative_capacity_input
       = (Inr (reviewStep negative_capacity_input) :: error + ReviewStepOutput)
   \<and> ReviewStepOutput.R_eff (reviewStep negative_capacity_input) = 0.97725
   \<and> ReviewStepOutput.t_eff (reviewStep negative_capacity_input) = 0"
proof -
  have "reviewStep_call (\<lambda>i. Inr (createMockScheduler 1.0 i)) negative_capacity_input
      = (Inr (reviewStep negative_capacity_input) :: error + ReviewStepOutput)"
    using reviewStep_call_returns [of negative_capacity_input]
    unfolding negative_capacity_fields(2) .
  then show ?thesis
    by (simp add: negative_capacity_fields R_eff_reviewStep t_eff_reviewStep
        negative_capacity_R_eff negative_capacity_effective)
qed

text \<open>
  Claim C4, amended. \<open>reviewStep\<close> does not reject a negative daily capacity. For
  a positive stability, a non-negative elapsed time and a positive scheduled time when
  one is given, with retention signals whose daily capacity is negative and whose
  number of due cards is positive, and with a scheduler that returns, \<open>reviewStep\<close>
  returns a result. The negative capacity is taken as the maximal load: the load
  pressure is 0.85, and the returned \<open>R_eff\<close> is the adaptive adjustment of the
  effective recall towards the target at strength 0.5 * 0.85 = 0.425.
\<close>

theorem negative_capacity_taken_as_maximal_load:
  assumes "retentionSignals input = Some rs"
    and "dailyCapacity rs < 0" and "0 < dueToday rs"
    and "0 < ReviewStepInput.S input" and "0 \<le> ReviewStepInput.t input"
    and "\<forall>st. ReviewStepInput.scheduled_t input = Some st \<longrightarrow> 0 < st"
  shows "reviewStep_call (\<lambda>i. Inr (scheduler input i)) input = Inr (reviewStep input)
    \<and> computeLoadPressure (dueToday rs) (dailyCapacity rs) = 0.85
    \<and> ReviewStepOutput.R_eff (reviewStep input)
        = applyAdaptiveRetention (EffectiveState.R_eff (step_effective input))
            (step_R_target input) 0.425"
proof -
  have p: "computeLoadPressure (dueToday rs) (dailyCapacity rs) = 0.85"
    using assms(2,3) by (simp add: computeLoadPressure_def)
  have sp: "step_pressure input = 0.85"
    using assms(1) p by (simp add: step_pressure_def)
  have h: "0.5 * step_pressure input = 0.425" unfolding sp by simp
  have "step_adjustedR_eff input
      = applyAdaptiveRetention (EffectiveState.R_eff (step_effective input))
          (step_R_target input) 0.425"
    unfolding step_adjustedR_eff_def h ..
  then show ?thesis using p reviewStep_call_returns [of input] by (simp add: R_eff_reviewStep)
qed

theorem negative_capacity_taken_as_maximal_load_witness:
  "retentionSignals negative_capacity_input = Some negativeCapacitySignals
   \<and> dailyCapacity negativeCapacitySignals < 0 \<and> 0 < dueToday negativeCapacitySignals
   \<and> 0 < ReviewStepInput.S negative_capacity_input
   \<and> 0 \<le> ReviewStepInput.t negative_capacity_input
   \<and> ReviewStepInput.scheduled_t negative_capacity_input = None
   \<and> reviewStep_call (\<lambda>i. Inr (scheduler negative_capacity_input i)) negative_capacity_input
       = Inr (reviewStep negative_capacity_input)
   \<and> computeLoadPressure 10 (- 1) = 0.85
   \<and> ReviewStepOutput.R_eff (reviewStep negative_capacity_input)
       = applyAdaptiveRetention (EffectiveState.R_eff (step_effective negative_capacity_input))
           (step_R_target negative_capacity_input) 0.425"
proof -
  have f: "ReviewStepInput.S negative_capacity_input = 1"
    "ReviewStepInput.t negative_capacity_input = 0"
    "ReviewStepInput.scheduled_t negative_capacity_input = None"
    by (simp_all add: negative_capacity_input_def)
  show ?thesis
    using negative_capacity_taken_as_maximal_load [of negative_capacity_input negativeCapacitySignals]
    by (simp add: negative_capacity_fields(1,3,4) f)
qed

section \<open>The decay factor\<close>

lemma weight_exponent:
  assumes "w \<noteq> 0"
  shows "Math_pow (- w) (- 1) * ln 0.9 = ln (10 / 9) / w"
    and "ln 0.9 / (- w) = ln (10 / 9) / w"
proof -
  have l: "ln (10 / 9 :: real) = - ln (9 / 10)"
    using ln_inverse [of "9 / 10 :: real"] by simp
  show "Math_pow (- w) (- 1) * ln 0.9 = ln (10 / 9) / w"
    using assms l by (simp add: Math_pow_minus_one)
  show "ln 0.9 / (- w) = ln (10 / 9) / w"
    using assms l by simp
qed

lemma ln_10_9_bounds: "8 / 81 \<le> ln (10 / 9 :: real)" "ln (10 / 9 :: real) \<le> 1 / 9"
proof -
  have "(1 / 9 :: real) - (1 / 9)\<^sup>2 \<le> ln (1 + 1 / 9)"
    by (rule ln_one_plus_pos_lower_bound) simp_all
  then show "8 / 81 \<le> ln (10 / 9 :: real)" by (simp add: power2_eq_square)
  have "ln (10 / 9 :: real) \<le> 10 / 9 - 1" by (rule ln_le_minus_one) simp
  then show "ln (10 / 9 :: real) \<le> 1 / 9" by simp
qed

lemma small_weight_overflows:
  assumes "0 < w" "w \<le> 1 / 10000"
  shows "EXP_OVERFLOW < ln (10 / 9) / w"
proof -
  have "EXP_OVERFLOW * w \<le> EXP_OVERFLOW * (1 / 10000)"
    using assms by (intro mult_left_mono) (simp_all add: EXP_OVERFLOW_def)
  also have "\<dots> < 8 / 81" by (simp add: EXP_OVERFLOW_def)
  also have "\<dots> \<le> ln (10 / 9 :: real)" by (rule ln_10_9_bounds(1))
  finally show ?thesis using assms by (simp add: pos_less_divide_eq)
qed

lemma large_weight_finite:
  assumes "w < 0 \<or> 1 / 1000 \<le> w"
  shows "\<not> EXP_OVERFLOW < ln (10 / 9) / w"
proof (cases "w < 0")
  case True
  have "0 \<le> ln (10 / 9 :: real)" by simp
  then have "ln (10 / 9) / w \<le> 0" using True by (simp add: divide_nonneg_neg)
  moreover have "0 \<le> EXP_OVERFLOW" by (simp add: EXP_OVERFLOW_def)
  ultimately have "ln (10 / 9) / w \<le> EXP_OVERFLOW" by (rule order_trans)
  then show ?thesis by (simp only: not_less)
next
  case False
  then have w: "1 / 1000 \<le> w" "0 < w" using assms by simp_all
  have "ln (10 / 9) / w \<le> (1 / 9) / w"
    using ln_10_9_bounds(2) w(2) by (intro divide_right_mono) simp_all
  also have "\<dots> \<le> (1 / 9) / (1 / 1000)"
    using w by (intro divide_left_mono) simp_all
  also have "\<dots> \<le> EXP_OVERFLOW" by (simp add: EXP_OVERFLOW_def)
  finally show ?thesis by (simp only: not_less)
qed

text \<open>
  Claim C5, counterexample. For the default parameters with the last weight set to 0
  the decay is 0 and \<open>computeDecayFactor\<close> does not fail: it returns the decay 0 and
  the factor \<open>Infinity\<close>.
\<close>

theorem computeDecayFactor_returns_on_zero_decay:
  "length zero_decay_params = 21
   \<and> computeDecayFactor (Params zero_decay_params) = \<lparr>decay = 0, factor = Infinity\<rparr>"
  by (simp add: computeDecayFactor_def zero_decay_params_def default_w_def)

text \<open>
  Claim C5, amended. For a parameter vector of 21 weights \<open>computeDecayFactor\<close>
  returns decay = -w20. When w20 is negative or at least 0.001, which includes the
  documented range [0.1, 0.8] of the decay, the factor is exp (ln 0.9 / decay) - 1
  rounded to 8 fractional digits. There is no check of the decay: when w20 is 0, and
  when it is positive and at most 0.0001 (where the exponential overflows), the
  function returns the factor \<open>Infinity\<close>.
\<close>

theorem computeDecayFactor_value:
  assumes "length ps = 21"
  shows "decay (computeDecayFactor (Params ps)) = - (ps ! 20)
    \<and> (ps ! 20 < 0 \<or> 1 / 1000 \<le> ps ! 20 \<longrightarrow>
         factor (computeDecayFactor (Params ps))
           = Finite (toFixed8 (exp (ln 0.9 / (- (ps ! 20))) - 1)))
    \<and> (0 \<le> ps ! 20 \<and> ps ! 20 \<le> 1 / 10000 \<longrightarrow>
         factor (computeDecayFactor (Params ps)) = Infinity)"
proof (intro conjI impI)
  show "decay (computeDecayFactor (Params ps)) = - (ps ! 20)"
    by (simp add: computeDecayFactor_def Let_def)
next
  assume a: "ps ! 20 < 0 \<or> 1 / 1000 \<le> ps ! 20"
  then have n: "ps ! 20 \<noteq> 0" by auto
  have ex: "Math_pow (- (ps ! 20)) (- 1) * ln 0.9 = ln 0.9 / (- (ps ! 20))"
    by (simp only: weight_exponent [OF n])
  have nf: "\<not> EXP_OVERFLOW < ln 0.9 / (- (ps ! 20))"
    using large_weight_finite [OF a] unfolding weight_exponent(2) [OF n] .
  show "factor (computeDecayFactor (Params ps))
      = Finite (toFixed8 (exp (ln 0.9 / (- (ps ! 20))) - 1))"
    using nf n by (simp add: computeDecayFactor_def Let_def ex)
next
  assume a: "0 \<le> ps ! 20 \<and> ps ! 20 \<le> 1 / 10000"
  show "factor (computeDecayFactor (Params ps)) = Infinity"
  proof (cases "ps ! 20 = 0")
    case True
    then show ?thesis by (simp add: computeDecayFactor_def Let_def)
  next
    case False
    then have "0 < ps ! 20" using a by simp
    then have "EXP_OVERFLOW < ln (10 / 9) / (ps ! 20)"
      using a by (intro small_weight_overflows) simp_all
    then show ?thesis
      by (simp add: computeDecayFactor_def Let_def weight_exponent(1) [OF False])
  qed
qed

theorem computeDecayFactor_value_witness:
  "length default_w = 21
   \<and> computeDecayFactor (Params default_w)
       = \<lparr>decay = - 0.1542, factor = Finite (toFixed8 (exp (ln 0.9 / (- 0.1542)) - 1))\<rparr>
   \<and> length (default_w[20 := 0.0001]) = 21
   \<and> computeDecayFactor (Params (default_w[20 := 0.0001]))
       = \<lparr>decay = - 0.0001, factor = Infinity\<rparr>"
proof -
  have l: "length default_w = 21" "length (default_w[20 := 0.0001]) = 21"
    by (simp_all add: default_w_def)
  have n: "default_w[20 := 0.0001] ! 20 = 0.0001" by (simp add: default_w_def)
  have e: "\<And>r :: DecayFactor. r = \<lparr>decay = decay r, factor = factor r\<rparr>" by simp
  show ?thesis
    using computeDecayFactor_value [OF l(1)] computeDecayFactor_value [OF l(2)] l
      e [of "computeDecayFactor (Params default_w)"]
      e [of "computeDecayFactor (Params (default_w[20 := 0.0001]))"]
    by (simp add: default_w_nth n)
qed

section \<open>The failure branch and the pre-review stability\<close>

lemma default_w_forget:
  "default_w ! 11 = 1.4835" "default_w ! 12 = 0.0614" "default_w ! 13 = 0.2629"
  "default_w ! 14 = 1.6483"
  by (simp_all add: default_w_def)

lemma toFixed8_rounds_up: "toFixed8 0.0100000051 = 0.01000001"
proof -
  have "round (0.0100000051 * 10 ^ 8 :: real) = 1000001"
    by (simp add: round_def)
  then show ?thesis by (simp add: toFixed8_def)
qed

lemma forget_raw_above:
  "0.0100000051 \<le>
     1.4835 * Math_pow 1 (- 0.0614) * (Math_pow (0.0100000051 + 1) 0.2629 - 1)
       * exp ((1 - 0.01) * 1.6483)"
proof -
  have A: "Math_pow 1 (- 0.0614) = 1" by (simp add: Math_pow_def)
  have "(0.0100000051::real) - 0.0100000051\<^sup>2 \<le> ln (1 + 0.0100000051)"
    by (rule ln_one_plus_pos_lower_bound) simp_all
  then have l: "(0.0098999::real) \<le> ln (0.0100000051 + 1)"
    by (simp add: power2_eq_square add.commute)
  have "1 + 0.2629 * ln (0.0100000051 + 1) \<le> exp (0.2629 * ln (0.0100000051 + 1 :: real))"
    by (rule exp_ge_add_one_self)
  also have "\<dots> = Math_pow (0.0100000051 + 1) 0.2629"
    by (simp add: Math_pow_def powr_def)
  finally have B: "0.0026 \<le> Math_pow (0.0100000051 + 1) 0.2629 - 1" using l by simp
  have C: "(2.6318::real) \<le> exp ((1 - 0.01) * 1.6483)"
    using exp_ge_add_one_self [of "(1 - 0.01) * 1.6483 :: real"] by simp
  define b where "b = Math_pow (0.0100000051 + 1) 0.2629 - 1"
  define c where "c = exp ((1 - 0.01) * 1.6483 :: real)"
  have "0.0026 * 2.6318 \<le> b * c"
    using B C unfolding b_def c_def by (intro mult_mono) simp_all
  then have "0.0100000051 \<le> 1.4835 * 1 * b * c" by simp
  then show ?thesis unfolding A b_def c_def .
qed

lemma forget_counterexample_value:
  "next_forget_stability default_w 1 0.0100000051 0.01 False = 0.01000001"
  unfolding next_forget_stability_def default_w_forget Let_def
  by (simp only: clamp_top [OF forget_raw_above] not_False_eq_True if_True toFixed8_rounds_up)

text \<open>
  Claim C6, counterexample. With the default parameters, difficulty 1, recall 0.01
  and S = 0.0100000051, the raw failure value is above S, the clamp returns S and the
  rounding to 8 fractional digits returns 0.01000001, which exceeds S.
\<close>

theorem next_forget_stability_exceeds_S:
  "next_forget_stability default_w 1 0.0100000051 0.01 False = 0.01000001
   \<and> \<not> next_forget_stability default_w 1 0.0100000051 0.01 False \<le> 0.0100000051"
  unfolding forget_counterexample_value by simp

text \<open>
  Claim C6, amended. For a positive difficulty and a positive S the failure-branch
  update without short-term memory never exceeds S rounded to 8 fractional digits;
  it exceeds S by at most 5e-9, and not at all when S has at most 8 fractional digits.
\<close>

theorem next_forget_stability_le_rounded_S:
  assumes "0 < d" and "0 < s"
  shows "next_forget_stability params d s r False \<le> toFixed8 s
    \<and> next_forget_stability params d s r False \<le> s + 5 / 10 ^ 9
    \<and> (toFixed8 s = s \<longrightarrow> next_forget_stability params d s r False \<le> s)"
proof -
  have a: "next_forget_stability params d s r False \<le> toFixed8 s"
    by (simp add: next_forget_stability_def Let_def toFixed8_mono clamp_le_hi)
  have "toFixed8 s \<le> s + 5 / 10 ^ 9" using toFixed8_error [of s] by linarith
  then show ?thesis using a by auto
qed

theorem next_forget_stability_le_rounded_S_witness:
  "(0::real) < 5 \<and> (0::real) < 10 \<and> next_forget_stability default_w 5 10 0.9 False \<le> 10"
  using next_forget_stability_le_rounded_S [of 5 10 default_w "0.9"] toFixed8_grid [of 1000000000]
  by simp

section \<open>The load clamp of step 7\<close>

lemma spec_steps_1_to_6_slices:
  "spec_steps_1_to_6 input =
     step_update input (step_adjustedR_eff input) * step_momentum input * step_pressure input
       * step_context input"
  unfolding spec_steps_1_to_6_def step_defs Let_def by simp

lemma unit_raw_alt: "unit_raw r = 1 + 6 * exp 1.8722 * (exp ((1 - r) * 0.796) - 1)"
  by (simp add: unit_raw_def Math_pow_def)

lemma unit_raw_bounds:
  assumes "0 \<le> r" "r \<le> 1"
  shows "1 \<le> unit_raw r" "unit_raw r \<le> 109"
proof -
  have e0: "1 \<le> exp ((1 - r) * 0.796)" using assms by simp
  have "exp ((1 - r) * 0.796) \<le> exp 1" using assms by simp
  then have e1: "exp ((1 - r) * 0.796) - 1 \<le> 2" using exp_le by linarith
  have k0: "0 \<le> 6 * exp (1.8722::real)" by simp
  have "exp (1.8722::real) \<le> exp 2" by simp
  then have k1: "6 * exp (1.8722::real) \<le> 54" using exp_2_le by linarith
  show "1 \<le> unit_raw r" using e0 k0 by (simp add: unit_raw_alt)
  have "6 * exp 1.8722 * (exp ((1 - r) * 0.796) - 1) \<le> 54 * 2"
    using k0 k1 e0 e1 by (intro mult_mono) simp_all
  then show "unit_raw r \<le> 109" by (simp add: unit_raw_alt)
qed

lemma nrs_unit:
  assumes "0 \<le> r" "r \<le> 1"
  shows "next_recall_stability default_w 5 1 r 3 = toFixed8 (unit_raw r)"
proof -
  have "clamp (unit_raw r) S_MIN 36500 = unit_raw r"
    using unit_raw_bounds [OF assms] by (simp add: clamp_def S_MIN_def)
  then show ?thesis
    unfolding next_recall_stability_def default_w_nth Let_def Rating_Hard_def Rating_Easy_def
    by (simp add: unit_raw_def)
qed

lemma unit_raw_gap: "unit_raw 0.99 + 2 / 100000000 \<le> unit_raw 0.9460125"
proof -
  define b where "b = exp ((1 - 0.99) * 0.796 :: real)"
  define c where "c = exp (0.03501405 :: real)"
  have a: "exp ((1 - 0.9460125) * 0.796 :: real) = b * c"
    unfolding b_def c_def by (simp flip: exp_add)
  have c1: "207 / 200 \<le> c" unfolding c_def using exp_ge_add_one_self [of "0.03501405 :: real"] by simp
  have b1: "1 \<le> b" unfolding b_def by simp
  have "b * (207 / 200) \<le> b * c" using c1 b1 by (intro mult_left_mono) simp_all
  then have d: "b + 7 / 200 \<le> b * c" using b1 by linarith
  define k where "k = 6 * exp (1.8722 :: real)"
  have k: "6 \<le> k" unfolding k_def by simp
  have "6 * (7 / 200) \<le> k * (b * c - b)" using k d by (intro mult_mono) simp_all
  then have g: "(1 + k * (b - 1)) + 2 / 100000000 \<le> 1 + k * (b * c - 1)"
    by (simp add: algebra_simps)
  have v1: "unit_raw 0.99 = 1 + k * (b - 1)" by (simp add: unit_raw_alt b_def k_def)
  have v2: "unit_raw 0.9460125 = 1 + k * (b * c - 1)" unfolding a [symmetric] by (simp add: unit_raw_alt k_def)
  show ?thesis unfolding v1 v2 by (rule g)
qed

lemma high_load_effective:
  "step_effective high_load_input = \<lparr>EffectiveState.R_eff = 0.99, t_eff = 0\<rparr>"
  by (simp add: step_effective_def computeEffectiveState_def high_load_input_def
      forgetting_curve_zero_elapsed Let_def)

lemma high_load_pressure: "step_pressure high_load_input = 0.85"
  by (simp add: step_pressure_def computeLoadPressure_def high_load_input_def highLoadSignals_def)

lemma high_load_target: "step_R_target high_load_input = 0.8865"
  by (simp add: step_R_target_def computeRTarget_def Let_def high_load_input_def highLoadSignals_def)

lemma high_load_adjusted: "step_adjustedR_eff high_load_input = 0.9460125"
  unfolding step_adjustedR_eff_def high_load_pressure high_load_target high_load_effective
  by (simp add: applyAdaptiveRetention_def Let_def)

lemma high_load_update:
  assumes "0 \<le> r" "r \<le> 1"
  shows "step_update high_load_input r = toFixed8 (unit_raw r)"
proof -
  have "1 - 5 / 1000000000 \<le> toFixed8 (unit_raw r)" "toFixed8 (unit_raw r) \<le> 109 + 5 / 1000000000"
    using toFixed8_near [of "unit_raw r"] unit_raw_bounds [OF assms] by linarith+
  then have "min 36500 (max (1 / 10) (toFixed8 (unit_raw r))) = toFixed8 (unit_raw r)" by simp
  then show ?thesis
    by (simp add: step_update_def updateStabilityTensor_def high_load_input_def nrs_unit [OF assms])
qed

lemma high_load_others:
  "step_momentum high_load_input = 1" "step_context high_load_input = 1"
  "retentionSignals high_load_input \<noteq> None"
  by (simp_all add: step_momentum_def computeSessionMomentum_def step_context_def
      computeContextMultiplier_def high_load_input_def)

lemma high_load_S_new: "S_new (reviewStep high_load_input) = toFixed8 (unit_raw 0.99) * 0.85"
proof -
  have "toFixed8 (unit_raw 0.99) < toFixed8 (unit_raw 0.9460125)" by (rule toFixed8_strict [OF unit_raw_gap])
  then show ?thesis
    by (simp add: S_new_reviewStep high_load_others high_load_pressure high_load_adjusted
        high_load_effective high_load_update)
qed

lemma unit_raw_antimono: "r1 \<le> r2 \<Longrightarrow> unit_raw r2 \<le> unit_raw r1"
proof -
  assume "r1 \<le> r2"
  then have "exp ((1 - r2) * 0.796) - 1 \<le> exp ((1 - r1) * 0.796) - 1" by simp
  then have "6 * exp 1.8722 * (exp ((1 - r2) * 0.796) - 1)
      \<le> 6 * exp 1.8722 * (exp ((1 - r1) * 0.796) - 1)"
    by (intro mult_left_mono) simp_all
  then show ?thesis by (simp add: unit_raw_alt)
qed

lemma no_signals_baseline:
  "spec_steps_1_to_6 (high_load_input\<lparr>retentionSignals := None\<rparr>) = toFixed8 (unit_raw 0.945)"
proof -
  let ?i = "high_load_input\<lparr>retentionSignals := None\<rparr>"
  have e: "step_effective ?i = \<lparr>EffectiveState.R_eff = 0.99, t_eff = 0\<rparr>"
    by (simp add: step_effective_def computeEffectiveState_def high_load_input_def
        forgetting_curve_zero_elapsed Let_def)
  have p: "step_pressure ?i = 1" by (simp add: step_pressure_def)
  have tg: "step_R_target ?i = 0.9" by (simp add: step_R_target_def high_load_input_def)
  have a: "step_adjustedR_eff ?i = 0.945"
    unfolding step_adjustedR_eff_def p tg e by (simp add: applyAdaptiveRetention_def Let_def)
  have u: "step_update ?i r = step_update high_load_input r" for r
    by (simp add: step_update_def)
  have m: "step_momentum ?i = 1" "step_context ?i = 1"
    by (simp_all add: step_momentum_def computeSessionMomentum_def step_context_def
        computeContextMultiplier_def high_load_input_def)
  show ?thesis
    by (simp add: spec_steps_1_to_6_slices a u m p high_load_update)
qed

lemma with_signals_steps:
  "spec_steps_1_to_6 high_load_input = toFixed8 (unit_raw 0.9460125) * 0.85"
  by (simp add: spec_steps_1_to_6_slices high_load_others high_load_pressure high_load_adjusted
      high_load_update)

text \<open>
  Claim C1, counterexample. With S = 1, difficulty 5, t = 0, grade Good and the
  high-load signals of the invariant tests (pressure 0.85 < 1), the value
  \<open>reviewStep\<close> returns is strictly below the minimum the spec describes: the code
  returns 0.85 times the tensor update at the unadjusted recall 0.99, while steps 1 to
  6 give 0.85 times the update at 0.9460125 with the signals and the update at 0.945
  (pressure 1) without them.
\<close>

theorem load_clamp_differs_from_spec_baseline:
  "retentionSignals high_load_input = Some highLoadSignals
   \<and> computeLoadPressure (dueToday highLoadSignals) (dailyCapacity highLoadSignals) < 1.0
   \<and> S_new (reviewStep high_load_input) < spec_load_clamp high_load_input"
proof -
  have s: "toFixed8 (unit_raw 0.99) < toFixed8 (unit_raw 0.9460125)" by (rule toFixed8_strict [OF unit_raw_gap])
  have "unit_raw 0.99 \<le> unit_raw 0.945" by (rule unit_raw_antimono) simp
  then have b: "toFixed8 (unit_raw 0.99) \<le> toFixed8 (unit_raw 0.945)" by (rule toFixed8_mono)
  have "1 \<le> unit_raw 0.99" by (rule unit_raw_bounds) simp_all
  then have pos: "0 < toFixed8 (unit_raw 0.99)" using toFixed8_near(2) [of "unit_raw 0.99"] by linarith
  have "toFixed8 (unit_raw 0.99) * 0.85 < toFixed8 (unit_raw 0.9460125) * 0.85" using s by simp
  moreover have "toFixed8 (unit_raw 0.99) * 0.85 < toFixed8 (unit_raw 0.945)" using b pos by simp
  ultimately have "S_new (reviewStep high_load_input) < spec_load_clamp high_load_input"
    unfolding spec_load_clamp_def high_load_S_new with_signals_steps no_signals_baseline
    by simp
  then show ?thesis
    by (simp add: high_load_input_def computeLoadPressure_def highLoadSignals_def)
qed

text \<open>
  Claim C1, amended. When retention signals are supplied and the pressure is below
  1, the returned \<open>S_new\<close> is the minimum of the value of steps 1 to 6 with the
  signals and of a baseline that is the tensor update at the effective recall of step
  1 as it is (no adaptive retention), multiplied by the session momentum, the same
  load pressure and the context multiplier.
\<close>

theorem load_clamp_uses_unadjusted_recall:
  assumes "retentionSignals input = Some rs"
    and "computeLoadPressure (dueToday rs) (dailyCapacity rs) < 1.0"
  shows "S_new (reviewStep input) =
           min (spec_steps_1_to_6 input)
             (updateStabilityTensor
                \<lparr>StabilityUpdateInput.S = ReviewStepInput.S input,
                 R_eff = EffectiveState.R_eff (step_effective input),
                 grade = gradeMap (ReviewStepInput.grade input),
                 difficulty = ReviewStepInput.difficulty input,
                 scheduled_t = ReviewStepInput.scheduled_t input,
                 actual_t = Some (ReviewStepInput.t input),
                 contextMultiplier = None, sessionMomentum = None\<rparr>
              * computeSessionMomentum
                  (case reviewsSoFarInSession input of None \<Rightarrow> 0 | Some n \<Rightarrow> n) 0.02
              * computeLoadPressure (dueToday rs) (dailyCapacity rs)
              * computeContextMultiplier (contextSignals input))"
  using assms
  by (simp add: S_new_reviewStep spec_steps_1_to_6_slices step_pressure_def step_update_def
      step_momentum_def step_context_def)

theorem load_clamp_uses_unadjusted_recall_witness:
  "retentionSignals high_load_input = Some highLoadSignals
   \<and> computeLoadPressure (dueToday highLoadSignals) (dailyCapacity highLoadSignals) < 1.0
   \<and> S_new (reviewStep high_load_input) =
         min (spec_steps_1_to_6 high_load_input)
           (updateStabilityTensor
              \<lparr>StabilityUpdateInput.S = 1, R_eff = 0.99, grade = 3, difficulty = 5,
               scheduled_t = None, actual_t = Some 0,
               contextMultiplier = None, sessionMomentum = None\<rparr>
            * computeSessionMomentum 0 0.02 * 0.85 * computeContextMultiplier None)"
proof -
  have a: "retentionSignals high_load_input = Some highLoadSignals"
    by (simp add: high_load_input_def)
  have b: "computeLoadPressure (dueToday highLoadSignals) (dailyCapacity highLoadSignals) < 1.0"
    by (simp add: computeLoadPressure_def highLoadSignals_def)
  have c: "computeLoadPressure (dueToday highLoadSignals) (dailyCapacity highLoadSignals) = 0.85"
    by (simp add: computeLoadPressure_def highLoadSignals_def)
  show ?thesis
    using load_clamp_uses_unadjusted_recall [OF a b] a b
    unfolding high_load_effective c
    by (simp add: high_load_input_def)
qed

section \<open>Early reviews\<close>

lemma recall_early_100: "0.99 \<le> forgetting_curve (Params default_w) 2.55 100"
  using forgetting_curve_lower [of 100 "2.55" "100 / 99"] by (simp add: toFixed8_values power_divide)

lemma recall_late_100: "0.98 \<le> forgetting_curve (Params default_w) 7 100"
  using forgetting_curve_lower [of 100 7 "100 / 98"] by (simp add: toFixed8_values power_divide)

lemma hundred_raw_alt: "hundred_raw r = 100 * (1 + hundred_gain * (exp ((1 - r) * 0.796) - 1))"
  by (simp add: hundred_raw_def hundred_gain_def Math_pow_def)

lemma hundred_gain_bounds: "0 \<le> hundred_gain" "hundred_gain \<le> 54"
proof -
  show "0 \<le> hundred_gain" by (simp add: hundred_gain_def)
  have "exp (1.8722::real) \<le> exp 2" by simp
  then have e: "exp (1.8722::real) \<le> 9" using exp_2_le by linarith
  have "(100::real) powr (- 0.1666) \<le> 100 powr 0" by (intro powr_mono) simp_all
  then have p: "(100::real) powr (- 0.1666) \<le> 1" by simp
  have "exp 1.8722 * (100 powr (- 0.1666)) \<le> 9 * (1::real)"
    using e p by (intro mult_mono) simp_all
  then show "hundred_gain \<le> 54" by (simp add: hundred_gain_def)
qed

lemma hundred_raw_bounds:
  assumes "0 \<le> r" "r \<le> 1"
  shows "100 \<le> hundred_raw r" "hundred_raw r \<le> 10900"
proof -
  have e0: "0 \<le> exp ((1 - r) * 0.796) - 1" using assms by simp
  have "exp ((1 - r) * 0.796) \<le> exp 1" using assms by simp
  then have e1: "exp ((1 - r) * 0.796) - 1 \<le> 2" using exp_le by linarith
  have g0: "0 \<le> hundred_gain * (exp ((1 - r) * 0.796) - 1)"
    using hundred_gain_bounds(1) e0 by simp
  have "hundred_gain * (exp ((1 - r) * 0.796) - 1) \<le> 54 * 2"
    using hundred_gain_bounds e0 e1 by (intro mult_mono) simp_all
  then show "hundred_raw r \<le> 10900" unfolding hundred_raw_alt by simp
  show "100 \<le> hundred_raw r" unfolding hundred_raw_alt using g0 by simp
qed

lemma nrs_hundred:
  assumes "0 \<le> r" "r \<le> 1"
  shows "next_recall_stability default_w 5 100 r 3 = toFixed8 (hundred_raw r)"
proof -
  have "clamp (hundred_raw r) S_MIN 36500 = hundred_raw r"
    using hundred_raw_bounds [OF assms] by (simp add: clamp_def S_MIN_def)
  then show ?thesis
    unfolding next_recall_stability_def default_w_nth Let_def Rating_Hard_def Rating_Easy_def
    by (simp add: hundred_raw_def)
qed

lemma hundred_raw_ratio:
  assumes "0.94 \<le> r"
  shows "hundred_raw r \<le> 1.144 * hundred_raw 0.945"
proof -
  define a where "a = exp ((1 - r) * 0.796) - 1"
  define a0 where "a0 = exp ((1 - 0.945) * 0.796 :: real) - 1"
  have "exp ((1 - r) * 0.796) \<le> exp (0.04776 :: real)" using assms by simp
  also have "\<dots> \<le> 1 + 0.04776 + 0.04776\<^sup>2" by (rule exp_bound) simp_all
  finally have a: "a \<le> 0.05005" unfolding a_def by (simp add: power2_eq_square)
  have "1 + (1 - 0.945) * 0.796 \<le> exp ((1 - 0.945) * 0.796 :: real)"
    by (rule exp_ge_add_one_self)
  then have a0: "0.04378 \<le> a0" unfolding a0_def by simp
  have "a \<le> 1.144 * a0" using a a0 by simp
  then have "hundred_gain * a \<le> hundred_gain * (1.144 * a0)"
    using hundred_gain_bounds(1) by (rule mult_left_mono)
  then have "100 * (1 + hundred_gain * a) \<le> 1.144 * (100 * (1 + hundred_gain * a0))"
    by (simp add: algebra_simps)
  then show ?thesis unfolding hundred_raw_alt a_def a0_def .
qed

lemma delay_penalty_lower: "1.19 \<le> Math_pow (5 / 4) 0.8"
proof -
  have "((5 / 4 :: real) powr 0.8) ^ 5 = (5 / 4) powr (0.8 * 5)"
    by (simp add: powr_powr flip: powr_numeral)
  also have "\<dots> = (5 / 4) ^ 4" by simp
  finally have p: "(1.19 :: real) ^ 5 \<le> ((5 / 4) powr 0.8) ^ 5" by (simp add: power_divide)
  have "\<not> (5 / 4 :: real) powr 0.8 < 1.19"
  proof
    assume "(5 / 4 :: real) powr 0.8 < 1.19"
    then have "((5 / 4 :: real) powr 0.8) ^ 5 < 1.19 ^ 5"
      by (intro power_strict_mono) simp_all
    then show False using p by linarith
  qed
  then have "(1.19 :: real) \<le> (5 / 4) powr 0.8" by linarith
  then show ?thesis by (simp add: Math_pow_def)
qed

lemma scheduled_early_effective:
  "EffectiveState.t_eff (step_effective (scheduled_base_input\<lparr>ReviewStepInput.t := 3, early := Some True\<rparr>)) = 2.55"
  "EffectiveState.R_eff (step_effective (scheduled_base_input\<lparr>ReviewStepInput.t := 3, early := Some True\<rparr>)) = 0.99"
proof -
  let ?e = "scheduled_base_input\<lparr>ReviewStepInput.t := 3, early := Some True\<rparr>"
  show te: "EffectiveState.t_eff (step_effective ?e) = 2.55"
    by (simp add: step_effective_t_eff scheduled_base_input_def Let_def)
  have s: "ReviewStepInput.S ?e = 100" by (simp add: scheduled_base_input_def)
  show "EffectiveState.R_eff (step_effective ?e) = 0.99"
    unfolding step_effective_R_eff te s using recall_early_100 by simp
qed

lemma scheduled_late_effective:
  "EffectiveState.t_eff (step_effective (scheduled_base_input\<lparr>ReviewStepInput.t := 5, early := Some False\<rparr>)) = 7"
  "0.98 \<le> EffectiveState.R_eff (step_effective (scheduled_base_input\<lparr>ReviewStepInput.t := 5, early := Some False\<rparr>))"
  "EffectiveState.R_eff (step_effective (scheduled_base_input\<lparr>ReviewStepInput.t := 5, early := Some False\<rparr>)) \<le> 0.99"
proof -
  let ?o = "scheduled_base_input\<lparr>ReviewStepInput.t := 5, early := Some False\<rparr>"
  show te: "EffectiveState.t_eff (step_effective ?o) = 7"
    by (simp add: step_effective_t_eff scheduled_base_input_def Let_def)
  have s: "ReviewStepInput.S ?o = 100" by (simp add: scheduled_base_input_def)
  show "0.98 \<le> EffectiveState.R_eff (step_effective ?o)"
    unfolding step_effective_R_eff te s using recall_late_100 by simp
  show "EffectiveState.R_eff (step_effective ?o) \<le> 0.99"
    unfolding step_effective_R_eff te s by simp
qed

lemma scheduled_adjusted:
  "step_adjustedR_eff (scheduled_base_input\<lparr>ReviewStepInput.t := 3, early := Some True\<rparr>) = 0.945"
  "0.94 \<le> step_adjustedR_eff (scheduled_base_input\<lparr>ReviewStepInput.t := 5, early := Some False\<rparr>)"
  "step_adjustedR_eff (scheduled_base_input\<lparr>ReviewStepInput.t := 5, early := Some False\<rparr>) \<le> 0.945"
proof -
  let ?e = "scheduled_base_input\<lparr>ReviewStepInput.t := 3, early := Some True\<rparr>"
  let ?o = "scheduled_base_input\<lparr>ReviewStepInput.t := 5, early := Some False\<rparr>"
  have p: "step_pressure ?e = 1.0" "step_pressure ?o = 1.0"
    by (simp_all add: step_pressure_def scheduled_base_input_def)
  have tg: "step_R_target ?e = 0.9" "step_R_target ?o = 0.9"
    by (simp_all add: step_R_target_def scheduled_base_input_def)
  show "step_adjustedR_eff ?e = 0.945"
    unfolding step_adjustedR_eff_def p tg scheduled_early_effective
    by (subst adaptive_default) simp_all
  have o: "step_adjustedR_eff ?o = 0.5 * EffectiveState.R_eff (step_effective ?o) + 0.45"
    unfolding step_adjustedR_eff_def p tg
    using scheduled_late_effective(2,3) by (intro adaptive_default) simp_all
  show "0.94 \<le> step_adjustedR_eff ?o" "step_adjustedR_eff ?o \<le> 0.945"
    unfolding o using scheduled_late_effective(2,3) by simp_all
qed

lemma scheduled_updates:
  assumes "0 \<le> r" "r \<le> 1"
  shows "step_update (scheduled_base_input\<lparr>ReviewStepInput.t := 3, early := Some True\<rparr>) r
           = min 36500 (max 0.1 (toFixed8 (hundred_raw r)))"
    and "step_update (scheduled_base_input\<lparr>ReviewStepInput.t := 5, early := Some False\<rparr>) r
           = min 36500 (max 0.1 (toFixed8 (hundred_raw r) / Math_pow (5 / 4) 0.8))"
  by (simp_all add: step_update_def updateStabilityTensor_def scheduled_base_input_def
      nrs_hundred [OF assms] Let_def)

lemma scheduled_multipliers:
  "step_momentum (scheduled_base_input\<lparr>ReviewStepInput.t := tt, early := e\<rparr>) = 1"
  "step_pressure (scheduled_base_input\<lparr>ReviewStepInput.t := tt, early := e\<rparr>) = 1"
  "step_context (scheduled_base_input\<lparr>ReviewStepInput.t := tt, early := e\<rparr>) = 1"
  "retentionSignals (scheduled_base_input\<lparr>ReviewStepInput.t := tt, early := e\<rparr>) = None"
  by (simp_all add: step_momentum_def computeSessionMomentum_def step_pressure_def step_context_def
      computeContextMultiplier_def scheduled_base_input_def)

text \<open>
  Claim C7, counterexample. A card with S = 100, difficulty 5, grade Good that was
  scheduled for day 4: the review of day 3 flagged early against the review of day 5
  not flagged early, all other inputs identical. The early review is updated without
  penalty; the review of day 5 is past the scheduled day and its stability is divided
  by the delay penalty (5/4)^0.8, so the early \<open>S_new\<close> is the larger one.
\<close>

theorem early_review_punished_by_delay_penalty:
  "\<not> S_new (reviewStep (scheduled_base_input\<lparr>ReviewStepInput.t := 3, early := Some True\<rparr>))
       \<le> S_new (reviewStep (scheduled_base_input\<lparr>ReviewStepInput.t := 5, early := Some False\<rparr>))"
proof -
  let ?e = "scheduled_base_input\<lparr>ReviewStepInput.t := 3, early := Some True\<rparr>"
  let ?o = "scheduled_base_input\<lparr>ReviewStepInput.t := 5, early := Some False\<rparr>"
  define r where "r = step_adjustedR_eff ?o"
  define W0 where "W0 = hundred_raw 0.945"
  define Be where "Be = toFixed8 W0"
  define Bo where "Bo = toFixed8 (hundred_raw r)"
  define p where "p = Math_pow (5 / 4) 0.8"
  have r: "0.94 \<le> r" "r \<le> 0.945" unfolding r_def by (rule scheduled_adjusted)+
  have W0: "100 \<le> W0" "W0 \<le> 10900" unfolding W0_def by (rule hundred_raw_bounds; simp)+
  have Be: "W0 - 5 / 1000000000 \<le> Be" "Be \<le> W0 + 5 / 1000000000"
    unfolding Be_def by (rule toFixed8_near)+
  have "hundred_raw r \<le> 1.144 * W0" unfolding W0_def by (rule hundred_raw_ratio [OF r(1)])
  then have Bo: "Bo \<le> 1.144 * W0 + 5 / 1000000000"
    unfolding Bo_def using toFixed8_near(1) [of "hundred_raw r"] by linarith
  have "100 \<le> hundred_raw r" using r by (intro hundred_raw_bounds) simp_all
  then have Bo0: "0 \<le> Bo" unfolding Bo_def using toFixed8_near(2) [of "hundred_raw r"] by linarith
  have p: "1.19 \<le> p" unfolding p_def by (rule delay_penalty_lower)
  have "Bo / p \<le> Bo / 1.19" using Bo0 p by (intro divide_left_mono) simp_all
  also have "\<dots> \<le> (1.144 * W0 + 5 / 1000000000) / 1.19" using Bo by (intro divide_right_mono) simp_all
  also have "\<dots> < Be" using W0 Be by (simp add: field_simps)
  finally have lt: "Bo / p < Be" .
  have ue: "step_update ?e (step_adjustedR_eff ?e) = Be"
    unfolding scheduled_adjusted(1) Be_def W0_def
    using W0 Be unfolding Be_def W0_def by (subst scheduled_updates(1)) simp_all
  have uo: "step_update ?o (step_adjustedR_eff ?o) = min 36500 (max 0.1 (Bo / p))"
    unfolding Bo_def p_def r_def using r unfolding r_def by (subst scheduled_updates(2)) simp_all
  show ?thesis
    unfolding S_new_reviewStep scheduled_multipliers ue uo
    using lt W0 Be by (simp add: not_le)
qed

text \<open>
  Claim C7, amended. When no scheduled time is given, or one of at least 5 days (so
  that neither review is past it), then for every grade, every positive S and every
  difficulty up to 11, all other inputs identical, the review at t = 3 flagged early
  has an \<open>S_new\<close> no larger than the review at t = 5 not flagged early. This covers
  difficulty 5 and S in {1, 5, 10, 50, 100}.
\<close>

theorem early_review_never_punishes:
  assumes "0 < ReviewStepInput.S base" and "ReviewStepInput.difficulty base \<le> 11"
    and "ReviewStepInput.scheduled_t base = None
         \<or> (\<exists>st. ReviewStepInput.scheduled_t base = Some st \<and> 5 \<le> st)"
  shows "S_new (reviewStep (base\<lparr>ReviewStepInput.t := 3, early := Some True\<rparr>))
       \<le> S_new (reviewStep (base\<lparr>ReviewStepInput.t := 5, early := Some False\<rparr>))"
proof -
  let ?e = "base\<lparr>ReviewStepInput.t := 3, early := Some True\<rparr>"
  let ?o = "base\<lparr>ReviewStepInput.t := 5, early := Some False\<rparr>"
  have same: "step_pressure ?e = step_pressure ?o" "step_R_target ?e = step_R_target ?o"
    "step_momentum ?e = step_momentum ?o" "step_context ?e = step_context ?o"
    "retentionSignals ?e = retentionSignals ?o"
    by (simp_all add: step_pressure_def step_R_target_def step_momentum_def step_context_def
        split: option.splits)
  have te: "0 \<le> EffectiveState.t_eff (step_effective ?e)"
    "EffectiveState.t_eff (step_effective ?e) \<le> EffectiveState.t_eff (step_effective ?o)"
    using assms(3) by (auto simp add: step_effective_t_eff Let_def)
  have R: "EffectiveState.R_eff (step_effective ?o) \<le> EffectiveState.R_eff (step_effective ?e)"
    unfolding step_effective_R_eff [of ?e] step_effective_R_eff [of ?o]
    using effective_recall_antimono [OF _ te] assms(1) by simp
  have "0.5 * step_pressure ?o \<le> 1" using step_ranges(2) [of ?o] by simp
  then have A: "step_adjustedR_eff ?o \<le> step_adjustedR_eff ?e"
    unfolding step_adjustedR_eff_def same by (intro applyAdaptiveRetention_mono R)
  have ue: "step_update ?e r
           = min 36500 (max 0.1 (next_recall_stability default_w (ReviewStepInput.difficulty base)
               (ReviewStepInput.S base) r (gradeMap (ReviewStepInput.grade base))))" for r
    using assms(3) by (subst step_update_unpenalised) auto
  have uo: "step_update ?o r
           = min 36500 (max 0.1 (next_recall_stability default_w (ReviewStepInput.difficulty base)
               (ReviewStepInput.S base) r (gradeMap (ReviewStepInput.grade base))))" for r
    using assms(3) by (subst step_update_unpenalised) auto
  have U: "step_update ?e r2 \<le> step_update ?o r1" if "r1 \<le> r2" for r1 r2
    unfolding ue uo
    using next_recall_stability_antimono [OF assms(1,2) that]
    by (intro min.mono max.mono) simp_all
  have P1: "step_update ?e (step_adjustedR_eff ?e) * step_momentum ?e * step_pressure ?e * step_context ?e
      \<le> step_update ?o (step_adjustedR_eff ?o) * step_momentum ?o * step_pressure ?o * step_context ?o"
    unfolding same using step_nonneg [of ?o] by (intro scaled_mono U A)
  have P2: "step_update ?e (EffectiveState.R_eff (step_effective ?e)) * step_momentum ?e
        * step_pressure ?e * step_context ?e
      \<le> step_update ?o (EffectiveState.R_eff (step_effective ?o)) * step_momentum ?o
        * step_pressure ?o * step_context ?o"
    unfolding same using step_nonneg [of ?o] by (intro scaled_mono U R)
  show ?thesis
    unfolding S_new_reviewStep [of ?e] S_new_reviewStep [of ?o] same
    using P1 P2 unfolding same by (auto intro: min.mono)
qed

theorem early_review_never_punishes_witness:
  "S_new (reviewStep (test_base_input\<lparr>ReviewStepInput.t := 3, early := Some True\<rparr>))
     \<le> S_new (reviewStep (test_base_input\<lparr>ReviewStepInput.t := 5, early := Some False\<rparr>))"
  using early_review_never_punishes [of test_base_input] by (simp add: test_base_input_def)

section \<open>Postponed reviews\<close>

lemma recall_gap:
  assumes s: "1 \<le> s" "s \<le> 100" and t: "0 \<le> t1" "t1 + 4 \<le> t2" "t2 \<le> 15"
  shows "(1 + default_factor * t2 / s) powr (- 0.1542) + 2 / 100000000
           \<le> (1 + default_factor * t1 / s) powr (- 0.1542)"
proof -
  define f where "f = default_factor"
  define b1 where "b1 = 1 + f * t1 / s"
  define b2 where "b2 = 1 + f * t2 / s"
  have f: "0.88 \<le> f" "f \<le> 1.091" unfolding f_def by (rule default_factor_bounds)+
  have s0: "0 < s" using s by linarith
  have b1: "1 \<le> b1" unfolding b1_def using f t s0 by simp
  have ft1: "f * t1 \<le> 1.091 * 11" using f t by (intro mult_mono) simp_all
  have ft2: "f * t2 \<le> 1.091 * 15" using f t by (intro mult_mono) simp_all
  have fd: "0.88 * 4 \<le> f * (t2 - t1)" using f t by (intro mult_mono) simp_all
  have den: "s + f * t1 \<le> 112.001" using ft1 s by simp
  have den0: "0 < s + f * t1" using s0 f t by (intro add_pos_nonneg) simp_all
  have b1e: "b1 = (s + f * t1) / s" unfolding b1_def using s0 by (simp add: field_simps)
  have b2e: "b2 = (s + f * t2) / s" unfolding b2_def using s0 by (simp add: field_simps)
  have b2pos: "0 < b2" unfolding b2e using s0 f t by (intro divide_pos_pos add_pos_nonneg) simp_all
  have b1pos: "0 < b1" using b1 by linarith
  have "b2 / b1 = (s + f * t2) / (s + f * t1)"
    unfolding b1e b2e using s0 by simp
  also have "\<dots> = 1 + f * (t2 - t1) / (s + f * t1)"
    using den0 by (simp add: field_simps)
  finally have q: "b2 / b1 = 1 + f * (t2 - t1) / (s + f * t1)" .
  have "0.88 * 4 / 112.001 \<le> f * (t2 - t1) / (s + f * t1)"
    using fd den den0 by (intro frac_le) simp_all
  then have q1: "1 + 314 / 10000 \<le> b2 / b1" unfolding q by simp
  have qpos: "0 < b2 / b1" using q1 by linarith
  have "314 / 10000 - (314 / 10000)\<^sup>2 \<le> ln (1 + 314 / 10000 :: real)"
    by (rule ln_one_plus_pos_lower_bound) simp_all
  also have "\<dots> \<le> ln (b2 / b1)" by (rule ln_mono [OF q1]) simp
  finally have l: "304 / 10000 \<le> ln (b2 / b1)" by (simp add: power2_eq_square)
  have "1 + 0.1542 * ln (b2 / b1) \<le> exp (0.1542 * ln (b2 / b1))" by (rule exp_ge_add_one_self)
  also have "\<dots> = (b2 / b1) powr 0.1542" using b2pos b1pos by (simp add: powr_def)
  finally have g: "10046 / 10000 \<le> (b2 / b1) powr 0.1542" using l by simp
  have b2le: "b2 \<le> 2 ^ 6"
  proof -
    have "0 \<le> f * t2" using f t by simp
    moreover have "f * t2 \<le> 17" using ft2 by simp
    ultimately have "f * t2 / s \<le> 17 / 1" using s by (intro frac_le) simp_all
    then have "b2 \<le> 64" unfolding b2_def by linarith
    then show ?thesis by simp
  qed
  have x2: "1 / 2 \<le> b2 powr (- 0.1542)" using b2pos b2le by (intro powr_decay_lower) simp_all
  have "b1 powr (- 0.1542) = (b2 / (b2 / b1)) powr (- 0.1542)" using b2pos b1 by simp
  also have "\<dots> = b2 powr (- 0.1542) / (b2 / b1) powr (- 0.1542)"
    using b2pos qpos by (simp add: powr_divide)
  also have "\<dots> = b2 powr (- 0.1542) * (b2 / b1) powr 0.1542"
    by (simp add: powr_minus_divide)
  finally have e: "b1 powr (- 0.1542) = b2 powr (- 0.1542) * (b2 / b1) powr 0.1542" .
  have "b2 powr (- 0.1542) * (10046 / 10000) \<le> b2 powr (- 0.1542) * (b2 / b1) powr 0.1542"
    using g by (intro mult_left_mono) simp_all
  then have "b2 powr (- 0.1542) + 2 / 100000000 \<le> b1 powr (- 0.1542)"
    unfolding e using x2 by linarith
  then show ?thesis unfolding b1_def b2_def f_def .
qed

lemma effective_recall_strict:
  assumes s: "1 \<le> s" "s \<le> 100" and t: "0 \<le> t1" "t1 + 4 \<le> t2" "17 / 2 \<le> t2" "t2 \<le> 15"
  shows "min 0.99 (max 0.01 (forgetting_curve (Params default_w) t2 s))
       < min 0.99 (max 0.01 (forgetting_curve (Params default_w) t1 s))"
proof -
  define F1 where "F1 = forgetting_curve (Params default_w) t1 s"
  define F2 where "F2 = forgetting_curve (Params default_w) t2 s"
  have s0: "0 < s" using s by linarith
  have t2: "0 \<le> t2" using t by linarith
  have lt: "F2 < F1"
    unfolding F1_def F2_def forgetting_curve_default [OF s0 t(1)] forgetting_curve_default [OF s0 t2]
    by (rule toFixed8_strict [OF recall_gap [OF s t(1,2,4)]])
  have "88 / 100 * (17 / 2) / 100 \<le> 88 / 100 * t2 / s"
    using s t by (intro frac_le mult_left_mono) simp_all
  then have "(10000 / 9899) ^ 7 \<le> 1 + 0.88 * t2 / s" by (simp add: power_divide)
  then have hi: "F2 \<le> 9899 / 10000"
    unfolding F2_def using forgetting_curve_upper [OF s0 t2, of "10000 / 9899"]
    by (simp add: toFixed8_9899)
  have "1091 / 1000 * t2 / s \<le> 1091 / 1000 * 15 / 1"
    using s t by (intro frac_le mult_left_mono) simp_all
  then have "1 + 1.091 * t2 / s \<le> 2 ^ 6" by simp
  then have lo: "1 / 2 \<le> F2"
    unfolding F2_def using forgetting_curve_lower [OF s0 t2, of 2] by (simp add: toFixed8_9899)
  have "min (99 / 100) (max (1 / 100) F2) < min (99 / 100) (max (1 / 100) F1)"
    using lt hi lo by simp
  then show ?thesis unfolding F1_def F2_def by simp
qed

lemma computeRTarget_range:
  "0.75 \<le> computeRTarget rs b g d \<and> computeRTarget rs b g d \<le> 0.97"
  unfolding computeRTarget_def Let_def by (simp add: min_def max_def)

lemma step_R_target_range:
  assumes "R_target input = None \<or> (\<exists>T. R_target input = Some T \<and> 0.01 \<le> T \<and> T \<le> 0.99)"
  shows "0.01 \<le> step_R_target input \<and> step_R_target input \<le> 0.99"
proof (cases "R_target input")
  case (Some T)
  then show ?thesis using assms by (simp add: step_R_target_def)
next
  case None
  show ?thesis
  proof (cases "retentionSignals input")
    case n: None
    then show ?thesis using None by (simp add: step_R_target_def)
  next
    case (Some rs)
    then show ?thesis
      using None computeRTarget_range [of rs "0.85" "0.1" "0.02"]
      by (simp add: step_R_target_def)
  qed
qed

lemma convex_in_range:
  fixes r T st :: real
  assumes "1 / 100 \<le> r" "r \<le> 99 / 100" "1 / 100 \<le> T" "T \<le> 99 / 100" "0 \<le> st" "st \<le> 1"
  shows "1 / 100 \<le> r + st * (T - r)" "r + st * (T - r) \<le> 99 / 100"
proof -
  define v where "v = r + st * (T - r)"
  have e1: "v - 1 / 100 = (1 - st) * (r - 1 / 100) + st * (T - 1 / 100)"
    unfolding v_def by (simp add: field_simps)
  have e2: "99 / 100 - v = (1 - st) * (99 / 100 - r) + st * (99 / 100 - T)"
    unfolding v_def by (simp add: field_simps)
  have "0 \<le> (1 - st) * (r - 1 / 100) + st * (T - 1 / 100)"
    using assms by (intro add_nonneg_nonneg mult_nonneg_nonneg) simp_all
  then show "1 / 100 \<le> r + st * (T - r)" using e1 unfolding v_def by linarith
  have "0 \<le> (1 - st) * (99 / 100 - r) + st * (99 / 100 - T)"
    using assms by (intro add_nonneg_nonneg mult_nonneg_nonneg) simp_all
  then show "r + st * (T - r) \<le> 99 / 100" using e2 unfolding v_def by linarith
qed

lemma applyAdaptiveRetention_strict:
  assumes "r1 < r2" "0.01 \<le> r1" "r2 \<le> 0.99" "0.01 \<le> T" "T \<le> 0.99" "0 \<le> st" "st < 1"
  shows "applyAdaptiveRetention r1 T st < applyAdaptiveRetention r2 T st"
proof -
  have f: "1 / 100 \<le> r1" "r1 \<le> 99 / 100" "1 / 100 \<le> r2" "r2 \<le> 99 / 100"
    "1 / 100 \<le> T" "T \<le> 99 / 100" "st \<le> 1"
    using assms by simp_all
  have "0 < (1 - st) * (r2 - r1)" using assms by (intro mult_pos_pos) simp_all
  moreover have "(r2 + st * (T - r2)) - (r1 + st * (T - r1)) = (1 - st) * (r2 - r1)"
    by (simp add: algebra_simps)
  ultimately have lt: "r1 + st * (T - r1) < r2 + st * (T - r2)" by linarith
  have a1: "applyAdaptiveRetention r1 T st = r1 + st * (T - r1)"
    unfolding applyAdaptiveRetention_def Let_def
    using convex_in_range [OF f(1,2,5,6) assms(6) f(7)] by (intro clamp_id) simp_all
  have a2: "applyAdaptiveRetention r2 T st = r2 + st * (T - r2)"
    unfolding applyAdaptiveRetention_def Let_def
    using convex_in_range [OF f(3,4,5,6) assms(6) f(7)] by (intro clamp_id) simp_all
  show ?thesis unfolding a1 a2 by (rule lt)
qed

lemma recall_large_stability:
  "0.99 \<le> forgetting_curve (Params default_w) 11.5 1000"
  "0.99 \<le> forgetting_curve (Params default_w) 5 1000"
  using forgetting_curve_lower [of 1000 "11.5" "100 / 99"] forgetting_curve_lower [of 1000 5 "100 / 99"]
  by (simp_all add: toFixed8_values power_divide)

text \<open>
  Claim C8, counterexample. With S = 1000 (difficulty 5, grade Good, no signals) the
  recall at the postponed effective time 11.5 and the recall at 5 are both at least
  0.99, both are clamped to 0.99 and both calls return \<open>R_eff = 0.945\<close>: the
  postponed value is not strictly smaller.
\<close>

theorem postponement_not_strict_at_large_stability:
  "ReviewStepOutput.R_eff (reviewStep (large_stability_input\<lparr>ReviewStepInput.t := 10, postponed := Some True\<rparr>)) = 0.945
   \<and> ReviewStepOutput.R_eff (reviewStep (large_stability_input\<lparr>ReviewStepInput.t := 5, postponed := Some False\<rparr>)) = 0.945
   \<and> \<not> ReviewStepOutput.R_eff (reviewStep (large_stability_input\<lparr>ReviewStepInput.t := 10, postponed := Some True\<rparr>))
         < ReviewStepOutput.R_eff (reviewStep (large_stability_input\<lparr>ReviewStepInput.t := 5, postponed := Some False\<rparr>))"
proof -
  let ?p = "large_stability_input\<lparr>ReviewStepInput.t := 10, postponed := Some True\<rparr>"
  let ?o = "large_stability_input\<lparr>ReviewStepInput.t := 5, postponed := Some False\<rparr>"
  have tp: "EffectiveState.t_eff (step_effective ?p) = 11.5"
    by (simp add: step_effective_t_eff large_stability_input_def Let_def)
  have to: "EffectiveState.t_eff (step_effective ?o) = 5"
    by (simp add: step_effective_t_eff large_stability_input_def Let_def)
  have s: "ReviewStepInput.S ?p = 1000" "ReviewStepInput.S ?o = 1000"
    by (simp_all add: large_stability_input_def)
  have Rp: "EffectiveState.R_eff (step_effective ?p) = 0.99"
    unfolding step_effective_R_eff tp s using recall_large_stability(1) by simp
  have Ro: "EffectiveState.R_eff (step_effective ?o) = 0.99"
    unfolding step_effective_R_eff to s using recall_large_stability(2) by simp
  have p: "step_pressure ?p = 1.0" "step_pressure ?o = 1.0"
    by (simp_all add: step_pressure_def large_stability_input_def)
  have tg: "step_R_target ?p = 0.9" "step_R_target ?o = 0.9"
    by (simp_all add: step_R_target_def large_stability_input_def)
  have "step_adjustedR_eff ?p = 0.945"
    unfolding step_adjustedR_eff_def p tg Rp by (subst adaptive_default) simp_all
  moreover have "step_adjustedR_eff ?o = 0.945"
    unfolding step_adjustedR_eff_def p tg Ro by (subst adaptive_default) simp_all
  ultimately show ?thesis unfolding R_eff_reviewStep by simp
qed

text \<open>
  Claim C8, amended. For every grade and difficulty, every positive S and a
  scheduled time that is absent or non-negative, all other inputs identical, the
  \<open>R_eff\<close> of the review at t = 10 flagged postponed is at most the \<open>R_eff\<close> of
  the review at t = 5 not flagged postponed; it is strictly smaller when
  1 <= S <= 100 and the target override is absent or within [0.01, 0.99].
\<close>

theorem postponement_never_rewards:
  assumes "0 < ReviewStepInput.S base"
    and "ReviewStepInput.scheduled_t base = None
         \<or> (\<exists>st. ReviewStepInput.scheduled_t base = Some st \<and> 0 \<le> st)"
  shows "ReviewStepOutput.R_eff (reviewStep (base\<lparr>ReviewStepInput.t := 10, postponed := Some True\<rparr>))
           \<le> ReviewStepOutput.R_eff (reviewStep (base\<lparr>ReviewStepInput.t := 5, postponed := Some False\<rparr>))
       \<and> (1 \<le> ReviewStepInput.S base \<and> ReviewStepInput.S base \<le> 100
            \<and> (R_target base = None \<or> (\<exists>T. R_target base = Some T \<and> 0.01 \<le> T \<and> T \<le> 0.99))
          \<longrightarrow> ReviewStepOutput.R_eff (reviewStep (base\<lparr>ReviewStepInput.t := 10, postponed := Some True\<rparr>))
                < ReviewStepOutput.R_eff (reviewStep (base\<lparr>ReviewStepInput.t := 5, postponed := Some False\<rparr>)))"
proof -
  let ?p = "base\<lparr>ReviewStepInput.t := 10, postponed := Some True\<rparr>"
  let ?o = "base\<lparr>ReviewStepInput.t := 5, postponed := Some False\<rparr>"
  have same: "step_pressure ?p = step_pressure ?o" "step_R_target ?p = step_R_target ?o"
    "step_R_target ?o = step_R_target base" "ReviewStepInput.S ?p = ReviewStepInput.S base"
    "ReviewStepInput.S ?o = ReviewStepInput.S base"
    by (simp_all add: step_pressure_def step_R_target_def split: option.splits)
  have te: "0 \<le> EffectiveState.t_eff (step_effective ?o)"
    "EffectiveState.t_eff (step_effective ?o) + 4 \<le> EffectiveState.t_eff (step_effective ?p)"
    "17 / 2 \<le> EffectiveState.t_eff (step_effective ?p)"
    "EffectiveState.t_eff (step_effective ?p) \<le> 15"
    using assms(2) by (auto simp add: step_effective_t_eff Let_def)
  have te_le: "EffectiveState.t_eff (step_effective ?o) \<le> EffectiveState.t_eff (step_effective ?p)"
    using te(2) by linarith
  have st: "0 \<le> 0.5 * step_pressure ?o" "0.5 * step_pressure ?o < 1"
    using step_ranges(1,2) [of ?o] by simp_all
  have R: "EffectiveState.R_eff (step_effective ?p) \<le> EffectiveState.R_eff (step_effective ?o)"
    unfolding step_effective_R_eff same
    by (rule effective_recall_antimono [OF assms(1) te(1) te_le])
  have le: "step_adjustedR_eff ?p \<le> step_adjustedR_eff ?o"
    unfolding step_adjustedR_eff_def same using st by (intro applyAdaptiveRetention_mono R) simp
  have lt: "step_adjustedR_eff ?p < step_adjustedR_eff ?o"
    if s: "1 \<le> ReviewStepInput.S base" "ReviewStepInput.S base \<le> 100"
      and T: "R_target base = None \<or> (\<exists>T. R_target base = Some T \<and> 0.01 \<le> T \<and> T \<le> 0.99)"
  proof -
    have Rs: "EffectiveState.R_eff (step_effective ?p) < EffectiveState.R_eff (step_effective ?o)"
      unfolding step_effective_R_eff same by (rule effective_recall_strict [OF s te])
    have rp: "0.01 \<le> EffectiveState.R_eff (step_effective ?p)"
      and ro: "EffectiveState.R_eff (step_effective ?o) \<le> 0.99"
      using computeEffectiveState_R_range by (simp_all add: step_effective_def)
    note Tr = step_R_target_range [OF T]
    show ?thesis
      unfolding step_adjustedR_eff_def same
      by (rule applyAdaptiveRetention_strict [OF Rs rp ro conjunct1 [OF Tr] conjunct2 [OF Tr] st])
  qed
  show ?thesis unfolding R_eff_reviewStep using le lt by blast
qed

theorem postponement_never_rewards_witness:
  "ReviewStepOutput.R_eff (reviewStep (test_base_input\<lparr>ReviewStepInput.t := 10, postponed := Some True\<rparr>))
     < ReviewStepOutput.R_eff (reviewStep (test_base_input\<lparr>ReviewStepInput.t := 5, postponed := Some False\<rparr>))"
  using postponement_never_rewards [of test_base_input] by (simp add: test_base_input_def)

section \<open>Validation of a memory state\<close>

text \<open>
  Claim C10. \<open>validateMemoryState\<close> accepts a stability of exactly zero: the state
  with S = 0, difficulty 5, t = 3 and no scheduled time is valid with no errors. A
  state is rejected exactly when S < 0, S > 36500, the difficulty is outside [0, 10],
  t is negative, or a scheduled time is present and negative or greater than t.
\<close>

theorem validateMemoryState_accepts_zero_stability:
  "validateMemoryState zero_stability_state = \<lparr>valid = True, errors = []\<rparr>
   \<and> (valid (validateMemoryState state) \<longleftrightarrow>
        \<not> (MemoryState.S state < 0 \<or> MemoryState.S state > 36500
           \<or> MemoryState.difficulty state < 0 \<or> MemoryState.difficulty state > 10
           \<or> MemoryState.t state < 0
           \<or> (case MemoryState.scheduled_t state of None \<Rightarrow> False
               | Some st \<Rightarrow> st < 0 \<or> st > MemoryState.t state)))"
  by (simp add: validateMemoryState_def zero_stability_state_def Let_def split: option.splits)

end
